theory Spec2Isabelle
  imports Main "HOL-Library.AList"
begin

section \<open>The command line driver of the compiler (solc/CommandLineInterface.cpp)\<close>

text \<open>
  The driver is modelled by explicit state passing. Everything the driver does that can be
  observed from outside is appended to one trace, in program order: text written to the two
  streams, text handed to the source reference formatter (which writes to the diagnostic
  stream), and calls made on the compilation engine. The engine, the file system, the option
  parser and the formatting helpers live outside the file; they are parameters of the model.
\<close>

subsection \<open>Option names\<close>

definition g_argAstJson :: string where "g_argAstJson = ''ast-json''"
definition g_argAstCompactJson :: string where "g_argAstCompactJson = ''ast-compact-json''"
definition g_argHelp :: string where "g_argHelp = ''help''"
definition g_argInputFile :: string where "g_argInputFile = ''input-file''"
definition g_strLicense :: string where "g_strLicense = ''license''"
definition g_argNatspecDev :: string where "g_argNatspecDev = ''devdoc''"
definition g_argNatspecUser :: string where "g_argNatspecUser = ''userdoc''"
definition g_argOutputDir :: string where "g_argOutputDir = ''output-dir''"
definition g_argFile :: string where "g_argFile = ''file''"
definition g_argVersion :: string where "g_argVersion = ''version''"
definition g_argDebug :: string where "g_argDebug = ''debug''"
definition g_argSetContract :: string where "g_argSetContract = ''contract''"
definition g_argTvm :: string where "g_argTvm = ''tvm''"
definition g_argTvmABI :: string where "g_argTvmABI = ''tvm-abi''"
definition g_argTvmOptimize :: string where "g_argTvmOptimize = ''tvm-optimize''"
definition g_argTvmPeephole :: string where "g_argTvmPeephole = ''tvm-peephole''"
definition g_argTvmUnsavedStructs :: string where "g_argTvmUnsavedStructs = ''tvm-unsaved-structs''"

subsection \<open>Faults\<close>

text \<open>
  What an exception object carries. The comment is the \<open>errinfo_comment\<close> attached where
  the exception is built, if one was attached: \<open>boost::get_error_info<errinfo_comment>\<close>
  returns a null pointer for \<open>None\<close>. \<open>detail\<close> stands for everything else in the object
  (source location, throw site) that the formatting helpers may read.
\<close>

record exn =
  errinfo_comment :: "string option"
  detail :: string

text \<open>
  \<open>Error::Type\<close> is declared in liblangutil/Exceptions.h. The driver names one of its values,
  \<open>DocstringParsingError\<close>; every other value is represented by the name that
  \<open>typeName()\<close> returns for it.
\<close>

datatype error_type = DocstringParsingError | OtherErrorType string

fun typeName :: "error_type \<Rightarrow> string" where
  "typeName DocstringParsingError = ''DocstringParsingError''"
| "typeName (OtherErrorType n) = n"

text \<open>
  A thrown object, by the class the catch clauses of the driver distinguish. The first five
  are the classes derived from \<open>util::Exception\<close>; \<open>StdException\<close> is any other
  \<open>std::exception\<close> with the result of \<open>what()\<close> (which may be null); \<open>UnknownFault\<close> is
  anything else.
\<close>

datatype fault =
    CompilerError exn
  | InternalCompilerError exn
  | UnimplementedFeatureError exn
  | Error error_type exn
  | Exception exn
  | StdException "string option"
  | UnknownFault

text \<open>The view of a fault that a clause \<open>catch (Exception const&)\<close> gets, if it matches.\<close>

fun as_Exception :: "fault \<Rightarrow> bool" where
  "as_Exception (StdException w) = False"
| "as_Exception UnknownFault = False"
| "as_Exception f = True"

subsection \<open>Trace and state\<close>

datatype stream = Cout | Cerr

record remapping =
  "context" :: string
  prefix :: string
  target :: string

datatype engine_call =
    Construct
  | SetRemappings "remapping list"
  | SetSources "(string \<times> string) list"
  | SetStructWarning bool
  | SetMainContract string
  | SetOutputFolder string
  | SetFileNamePrefix string
  | GenerateAbi
  | GenerateCode
  | WithOptimizations
  | WithDebugInfo
  | SetInputFile string
  | Compile

datatype event =
    Out stream string
      \<comment> \<open>text inserted into \<open>cout\<close> or \<open>cerr\<close> by the driver itself\<close>
  | FormattedError exn
      \<comment> \<open>\<open>formatter->printErrorInformation\<close>: written to \<open>cerr\<close> with source reference\<close>
  | FormattedException fault string
      \<comment> \<open>\<open>formatter->printExceptionInformation\<close> with its label, written to \<open>cerr\<close>\<close>
  | Engine engine_call
      \<comment> \<open>a call on \<open>m_compiler\<close> (or its construction)\<close>
  | SourceReader string string
      \<comment> \<open>a call of the source reader by the engine, with kind and path\<close>
  | Peephole string
      \<comment> \<open>\<open>run_peephole_pass\<close> on a file name\<close>

fun is_write :: "event \<Rightarrow> bool" where
  "is_write (Out s t) = True"
| "is_write (FormattedError e) = True"
| "is_write (FormattedException f l) = True"
| "is_write (Engine c) = False"
| "is_write (SourceReader k p) = False"
| "is_write (Peephole s) = False"

fun is_engine :: "event \<Rightarrow> bool" where
  "is_engine (Engine c) = True"
| "is_engine e = False"

text \<open>
  \<open>po::variables_map\<close>: option name to stored value. An option declared without a value
  stores the empty string. \<open>count\<close> is 1 for a stored option and 0 otherwise.
\<close>

type_synonym variables_map = "string \<rightharpoonup> string"

definition count :: "variables_map \<Rightarrow> string \<Rightarrow> nat" where
  "count m k = (case m k of None \<Rightarrow> 0 | Some v \<Rightarrow> 1)"

text \<open>
  Modelled from the spec: \<open>m_sourceCodes\<close> is declared in solc/CommandLineInterface.h, which
  is not among the sources. The spec's SourceUnit mapping has unique keys, keeps its order,
  and a write to a present key overwrites the content: an association list written with
  \<open>AList.update\<close>. The iteration order is the order of the list.
\<close>

type_synonym source_map = "(string \<times> string) list"

record cli_state =
  g_hasOutput :: bool
  trace :: "event list"
  m_args :: variables_map
  m_sourceCodes :: source_map
  m_remappings :: "remapping list"
  m_allowedDirectories :: "string list"
  m_coloredOutput :: bool
  m_error :: bool

definition emit :: "event \<Rightarrow> cli_state \<Rightarrow> cli_state" where
  "emit e st = st\<lparr>trace := trace st @ [e]\<rparr>"

definition endl :: string where
  "endl = [CHR 0x0A]"

text \<open>
  \<open>sout() << text\<close>: the accessor sets the flag and returns \<open>cout\<close>, then the text is
  inserted. \<open>serr(_used) << text\<close> likewise, the flag being set only when \<open>_used\<close>.
\<close>

definition sout :: "string \<Rightarrow> cli_state \<Rightarrow> cli_state" where
  "sout t st = emit (Out Cout t) (st\<lparr>g_hasOutput := True\<rparr>)"

definition serr :: "bool \<Rightarrow> string \<Rightarrow> cli_state \<Rightarrow> cli_state" where
  "serr used t st = emit (Out Cerr t) (if used then st\<lparr>g_hasOutput := True\<rparr> else st)"

subsection \<open>The engine after the invocation step\<close>

text \<open>
  The accessors of \<open>CompilerStack\<close> that the output functions read. \<open>astJson legacy name\<close> is
  the text \<open>ASTJsonConverter(legacy, sourceIndices()).print\<close> writes for \<open>ast(name)\<close>;
  the natspec fields give the text \<open>jsonPrettyPrint\<close> returns for the document. The
  accessors are taken to return: a throw of theirs is not represented.
\<close>

record compiled =
  compilationSuccessful :: bool
  contractNames :: "string list"
  astJson :: "bool \<Rightarrow> string \<Rightarrow> string"
  natspecDev :: "string \<Rightarrow> string"
  natspecUser :: "string \<Rightarrow> string"

subsection \<open>Output of compilation results\<close>

definition needsHumanTargetedStdout :: "variables_map \<Rightarrow> bool" where
  "needsHumanTargetedStdout args =
     (\<exists>arg \<in> set [g_argAstJson, g_argNatspecUser, g_argNatspecDev]. count args arg \<noteq> 0)"

definition handleNatspec :: "compiled \<Rightarrow> bool \<Rightarrow> string \<Rightarrow> cli_state \<Rightarrow> cli_state" where
  "handleNatspec c natspecDev_flag contract st =
     (let argName = (if natspecDev_flag then g_argNatspecDev else g_argNatspecUser);
          title = (if natspecDev_flag then ''Developer Documentation'' else ''User Documentation'')
      in if count (m_args st) argName \<noteq> 0
         then (let output = (if natspecDev_flag then natspecDev c contract else natspecUser c contract)
               in sout (output @ endl) (sout (title @ endl) st))
         else st)"

definition banner :: "string \<Rightarrow> string" where
  "banner name = endl @ ''======= '' @ name @ '' ======='' @ endl"

text \<open>One round of the loop over \<open>m_sourceCodes\<close> in \<open>handleAst\<close>.\<close>

definition astUnit :: "compiled \<Rightarrow> bool \<Rightarrow> cli_state \<Rightarrow> string \<Rightarrow> cli_state" where
  "astUnit c legacyFormat st name = sout (astJson c legacyFormat name) (sout (banner name) st)"

text \<open>The title chosen by \<open>handleAst\<close>; any other argument is an internal error.\<close>

definition astTitle :: "string \<Rightarrow> fault + string" where
  "astTitle argStr =
     (if argStr = g_argAstJson then Inr ''JSON AST:''
      else if argStr = g_argAstCompactJson then Inr ''JSON AST (compact format):''
      else Inl (InternalCompilerError
                  \<lparr>errinfo_comment = Some ''Illegal argStr for AST'', detail = []\<rparr>))"

definition handleAst :: "compiled \<Rightarrow> string \<Rightarrow> cli_state \<Rightarrow> fault + cli_state" where
  "handleAst c argStr st =
     (case astTitle argStr of
        Inl f \<Rightarrow> Inl f
      | Inr title \<Rightarrow>
          if count (m_args st) argStr \<noteq> 0
          then (let legacyFormat = \<not> (count (m_args st) g_argAstCompactJson \<noteq> 0)
                in Inr (foldl (astUnit c legacyFormat) (sout (title @ endl @ endl) st)
                          (map fst (m_sourceCodes st))))
          else Inr st)"

text \<open>One round of the loop over the contract names.\<close>

definition contractOutput :: "compiled \<Rightarrow> cli_state \<Rightarrow> string \<Rightarrow> cli_state" where
  "contractOutput c st contract =
     handleNatspec c False contract
       (handleNatspec c True contract
          (if needsHumanTargetedStdout (m_args st) then sout (banner contract) st else st))"

definition outputContracts :: "compiled \<Rightarrow> cli_state \<Rightarrow> cli_state" where
  "outputContracts c st = foldl (contractOutput c) st (contractNames c)"

definition halt_notice :: string where
  "halt_notice = endl @ ''Compilation halted after AST generation due to errors.'' @ endl"

definition advisory :: string where
  "advisory = ''Compiler run successful, no output requested.'' @ endl"

text \<open>The two calls of \<open>handleAst\<close> that open \<open>outputCompilationResults\<close>.\<close>

definition astStage :: "compiled \<Rightarrow> cli_state \<Rightarrow> fault + cli_state" where
  "astStage c st =
     (case handleAst c g_argAstJson st of
        Inl f \<Rightarrow> Inl f
      | Inr st1 \<Rightarrow> handleAst c g_argAstCompactJson st1)"

definition outputCompilationResults :: "compiled \<Rightarrow> cli_state \<Rightarrow> fault + cli_state" where
  "outputCompilationResults c st =
     (case astStage c st of
        Inl f \<Rightarrow> Inl f
      | Inr st2 \<Rightarrow>
          if \<not> compilationSuccessful c
          then Inr (serr True halt_notice st2)
          else
            (let st3 = outputContracts c st2
             in if \<not> g_hasOutput st3 then Inr (serr True advisory st3) else Inr st3))"

definition actOnInput :: "compiled \<Rightarrow> cli_state \<Rightarrow> fault + (bool \<times> cli_state)" where
  "actOnInput c st =
     (case outputCompilationResults c st of
        Inl f \<Rightarrow> Inl f
      | Inr st' \<Rightarrow> Inr (\<not> m_error st', st'))"

subsection \<open>File system, option parser and helpers\<close>

text \<open>
  The operations of boost::filesystem and \<open>readFileAsString\<close> that the driver calls, on
  paths as strings. Each of the operations that touch the disk may throw.
\<close>

record filesystem =
  fs_exists :: "string \<Rightarrow> fault + bool"
  fs_is_regular_file :: "string \<Rightarrow> fault + bool"
  fs_canonical :: "string \<Rightarrow> fault + string"
  fs_weakly_canonical :: "string \<Rightarrow> fault + string"
  readFileAsString :: "string \<Rightarrow> fault + string"
  generic_string :: "string \<Rightarrow> string"
  remove_filename :: "string \<Rightarrow> string"

datatype po_error = ParseError string | MultipleOccurrences string

text \<open>
  What the process is started in: the result of \<open>cmdLineParser.run()\<close> on the argument
  vector (an error, or the options found, each with its name and value, positional tokens
  under the name \<open>input-file\<close>), the two terminal tests, the texts of the build, the
  \<open>what()\<close> of an option error, \<open>boost::diagnostic_information\<close>, and the literal
  \<open>ReadCallback::kindString(ReadCallback::Kind::ReadFile)\<close>.
\<close>

record environment =
  cmdLineParser_run :: "string list \<Rightarrow> po_error + (string \<times> string) list"
  po_what :: "po_error \<Rightarrow> string"
  isatty_stderr :: bool
  isatty_stdin :: bool
  VersionString :: string
  otherLicenses :: string
  licenseText :: string
  diagnostic_information :: "fault \<Rightarrow> string"
  kindString_ReadFile :: string

text \<open>
  \<open>po::store\<close> into a variables map. Every option of this program is declared either without
  a value or with \<open>po::value<string>()\<close>, so a second occurrence of a name is refused; the
  entries stored before it stay.
\<close>

fun po_store :: "(string \<times> string) list \<Rightarrow> variables_map \<Rightarrow> po_error option \<times> variables_map" where
  "po_store [] m = (None, m)"
| "po_store ((k, v) # xs) m =
     (case m k of
        Some w \<Rightarrow> (Some (MultipleOccurrences k), m)
      | None \<Rightarrow> po_store xs (m(k \<mapsto> v)))"

definition dquote :: string where
  "dquote = [CHR 0x22]"

text \<open>Insertion of a \<open>boost::filesystem::path\<close> into a stream: quoted, with \<open>&\<close> as escape.\<close>

definition path_insert :: "string \<Rightarrow> string" where
  "path_insert p =
     dquote @ concat (map (\<lambda>c. if c = CHR 0x22 \<or> c = CHR ''&'' then [CHR ''&'', c] else [c]) p) @ dquote"

subsection \<open>Input loading\<close>

definition no_input_files :: string where
  "no_input_files =
     ''No input files given. If you wish to use the standard input please specify '' @
     dquote @ ''-'' @ dquote @ '' explicitly.'' @ endl"

text \<open>The block guarded by \<open>m_args.count(g_argInputFile)\<close>.\<close>

definition loadInputFile ::
  "filesystem \<Rightarrow> (string \<Rightarrow> remapping option) \<Rightarrow> cli_state \<Rightarrow> (fault + bool) \<times> cli_state" where
  "loadInputFile fs parseRemapping st =
     (case m_args st g_argInputFile of
        None \<Rightarrow> (Inr True, st)
      | Some path \<Rightarrow>
          if CHR ''='' \<in> set path
          then
            (case parseRemapping path of
               Some r \<Rightarrow>
                 (Inr True,
                  st\<lparr>m_remappings := m_remappings st @ [r],
                     m_allowedDirectories := m_allowedDirectories st @
                       [remove_filename fs (tl (dropWhile (\<lambda>c. c \<noteq> CHR ''='') path))]\<rparr>)
             | None \<Rightarrow>
                 (Inr False, serr True (''Invalid remapping: '' @ dquote @ path @ dquote @ ''.'' @ endl) st))
          else
            (case fs_exists fs path of
               Inl f \<Rightarrow> (Inl f, st)
             | Inr False \<Rightarrow> (Inr False, serr True (path_insert path @ '' is not found.'' @ endl) st)
             | Inr True \<Rightarrow>
                 (case fs_is_regular_file fs path of
                    Inl f \<Rightarrow> (Inl f, st)
                  | Inr False \<Rightarrow>
                      (Inr False, serr True (path_insert path @ '' is not a valid file.'' @ endl) st)
                  | Inr True \<Rightarrow>
                      (case readFileAsString fs path of
                         Inl f \<Rightarrow> (Inl f, st)
                       | Inr contents \<Rightarrow>
                           (let st1 = st\<lparr>m_sourceCodes :=
                                         AList.update (generic_string fs path) contents (m_sourceCodes st)\<rparr>
                            in case fs_canonical fs path of
                                 Inl f \<Rightarrow> (Inl f, st1)
                               | Inr cpath \<Rightarrow>
                                   (Inr True,
                                    st1\<lparr>m_allowedDirectories :=
                                           m_allowedDirectories st1 @ [remove_filename fs cpath]\<rparr>))))))"

definition readInputFilesAndConfigureRemappings ::
  "filesystem \<Rightarrow> (string \<Rightarrow> remapping option) \<Rightarrow> cli_state \<Rightarrow> (fault + bool) \<times> cli_state" where
  "readInputFilesAndConfigureRemappings fs parseRemapping st =
     (case loadInputFile fs parseRemapping st of
        (Inl f, st1) \<Rightarrow> (Inl f, st1)
      | (Inr False, st1) \<Rightarrow> (Inr False, st1)
      | (Inr True, st1) \<Rightarrow>
          if length (m_sourceCodes st1) = 0
          then (Inr False, serr True no_input_files st1)
          else (Inr True, st1))"

subsection \<open>Argument parsing\<close>

datatype outcome = Returned bool | Exited nat

text \<open>The text of \<open>desc\<close> as the option library renders it, reduced to its caption line.\<close>

definition options_description :: string where
  "options_description = ''solc, the Solidity commandline compiler.'' @ endl"

definition version :: "environment \<Rightarrow> cli_state \<Rightarrow> cli_state" where
  "version env st =
     sout (''solc, the solidity compiler commandline interface'' @ endl @
           ''Version: '' @ VersionString env @ endl) st"

definition license :: "environment \<Rightarrow> cli_state \<Rightarrow> cli_state" where
  "license env st = sout (licenseText env @ endl) (sout (otherLicenses env @ endl) st)"

definition mutually_exclusive :: string where
  "mutually_exclusive =
     ''Option '' @ g_argTvmABI @ '' and '' @ g_argTvm @ '' are mutually exclusive.'' @ endl"

text \<open>
  \<open>parseArguments\<close>. The declaration of the options is in the result of the parser's run;
  the closing \<open>po::notify\<close> has nothing to do, since no option is required or has a
  notifier. \<open>version()\<close> and \<open>license()\<close> leave the process with status 0.
\<close>

definition parseArguments :: "environment \<Rightarrow> string list \<Rightarrow> cli_state \<Rightarrow> outcome \<times> cli_state" where
  "parseArguments env argv st0 =
     (let st = st0\<lparr>g_hasOutput := False\<rparr>
      in case cmdLineParser_run env argv of
           Inl e \<Rightarrow> (Returned False, serr True (po_what env e @ endl) st)
         | Inr opts \<Rightarrow>
             (case po_store opts (m_args st) of
                (Some e, m) \<Rightarrow> (Returned False, serr True (po_what env e @ endl) (st\<lparr>m_args := m\<rparr>))
              | (None, m) \<Rightarrow>
                  (let st1 = st\<lparr>m_args := m\<rparr>;
                       tvmAbi = (count m g_argTvmABI \<noteq> 0);
                       tvmCode = (count m g_argTvm \<noteq> 0)
                   in if tvmAbi \<and> tvmCode
                      then (Returned False, serr True mutually_exclusive st1)
                      else if count m g_argTvmPeephole \<noteq> 0
                      then (case find (\<lambda>s. s \<noteq> ''--'' @ g_argTvmPeephole) (drop 1 argv) of
                              Some s \<Rightarrow> (Returned False, emit (Peephole s) st1)
                            | None \<Rightarrow> (Returned False, serr True (''Missing filename.'' @ endl) st1))
                      else
                        (let st2 = st1\<lparr>m_coloredOutput := isatty_stderr env\<rparr>
                         in if count m g_argHelp \<noteq> 0 \<or> (isatty_stdin env \<and> length argv = 1)
                            then (Returned False, sout options_description st2)
                            else if count m g_argVersion \<noteq> 0
                            then (Exited 0, version env st2)
                            else if count m g_strLicense \<noteq> 0
                            then (Exited 0, license env st2)
                            else (Returned True, st2)))))"

subsection \<open>The source reader callback\<close>

record Result =
  success :: bool
  responseOrErrorMessage :: string

definition fileReader_try ::
  "environment \<Rightarrow> filesystem \<Rightarrow> string \<Rightarrow> string \<Rightarrow> cli_state \<Rightarrow> (fault + Result) \<times> cli_state" where
  "fileReader_try env fs kind path st =
     (if kind \<noteq> kindString_ReadFile env
      then (Inl (InternalCompilerError
                  \<lparr>errinfo_comment = Some (''ReadFile callback used as callback kind '' @ kind),
                   detail = []\<rparr>), st)
      else
        (case fs_weakly_canonical fs path of
           Inl f \<Rightarrow> (Inl f, st)
         | Inr canonicalPath \<Rightarrow>
             (case fs_exists fs canonicalPath of
                Inl f \<Rightarrow> (Inl f, st)
              | Inr False \<Rightarrow>
                  (Inr \<lparr>success = False, responseOrErrorMessage = ''File not found.''\<rparr>, st)
              | Inr True \<Rightarrow>
                  (case fs_is_regular_file fs canonicalPath of
                     Inl f \<Rightarrow> (Inl f, st)
                   | Inr False \<Rightarrow>
                       (Inr \<lparr>success = False, responseOrErrorMessage = ''Not a valid file.''\<rparr>, st)
                   | Inr True \<Rightarrow>
                       (case readFileAsString fs canonicalPath of
                          Inl f \<Rightarrow> (Inl f, st)
                        | Inr contents \<Rightarrow>
                            (Inr \<lparr>success = True, responseOrErrorMessage = contents\<rparr>,
                             st\<lparr>m_sourceCodes :=
                                  AList.update (generic_string fs path) contents (m_sourceCodes st)\<rparr>))))))"

definition fileReader ::
  "environment \<Rightarrow> filesystem \<Rightarrow> string \<Rightarrow> string \<Rightarrow> cli_state \<Rightarrow> Result \<times> cli_state" where
  "fileReader env fs kind path st =
     (case fileReader_try env fs kind path st of
        (Inr r, st') \<Rightarrow> (r, st')
      | (Inl f, st') \<Rightarrow>
          if as_Exception f
          then (\<lparr>success = False,
                 responseOrErrorMessage = ''Exception in read callback: '' @ diagnostic_information env f\<rparr>, st')
          else (\<lparr>success = False,
                 responseOrErrorMessage = ''Unknown exception in read callback.''\<rparr>, st'))"

subsection \<open>The engine during the invocation step\<close>

text \<open>
  One call of \<open>compile()\<close>, seen from the driver: the engine either returns the pair
  (successful, didCompileSomething) together with the diagnostics that \<open>errors()\<close> holds
  afterwards, or throws, or first asks the source reader for a file and goes on from the
  answer. The engine may ask any number of times; each call of the reader is entered in the
  trace.
\<close>

datatype compile_run =
    Finished bool bool "exn list"
  | Raised fault
  | ReadCallback string string "Result \<Rightarrow> compile_run"

text \<open>
  The engine as the driver meets it: what a configuration call throws (nothing, when it
  returns), and how the run of \<open>compile()\<close> goes.
\<close>

record engine =
  on_call :: "engine_call \<Rightarrow> fault option"
  compile :: compile_run

primrec run_compile ::
  "environment \<Rightarrow> filesystem \<Rightarrow> compile_run \<Rightarrow> cli_state \<Rightarrow> (fault + bool \<times> bool \<times> exn list) \<times> cli_state" where
  "run_compile env fs (Finished successful didCompileSomething errors) st =
     (Inr (successful, didCompileSomething, errors), st)"
| "run_compile env fs (Raised f) st = (Inl f, st)"
| "run_compile env fs (ReadCallback kind path k) st =
     (case fileReader env fs kind path (emit (SourceReader kind path) st) of
        (r, st') \<Rightarrow> run_compile env fs (k r) st')"

subsection \<open>Configuration and invocation\<close>

text \<open>
  The statements of the \<open>try\<close> block before \<open>compile()\<close>, in order: a call on the engine,
  a line on the diagnostic stream, or a throw of the driver's own.
\<close>

datatype step = Call engine_call | Say string | Throw fault

definition tvm_optimize_deprecated :: string where
  "tvm_optimize_deprecated =
     ''Flag '' @ [CHR 0x27] @ ''--tvm-optimize'' @ [CHR 0x27] @
     '' is deprecated. Code is optimized by default.'' @ endl"

definition bad_any_cast :: string where
  "bad_any_cast = ''boost::bad_any_cast: failed conversion using boost::any_cast''"

definition config_steps :: "cli_state \<Rightarrow> step list" where
  "config_steps st =
     (let args = m_args st
      in (if count args g_argInputFile \<noteq> 0 then [Call (SetRemappings (m_remappings st))] else [])
         @ [Call (SetSources (m_sourceCodes st))]
         @ (if count args g_argTvmUnsavedStructs \<noteq> 0 then [Call (SetStructWarning True)] else [])
         @ (case args g_argSetContract of None \<Rightarrow> [] | Some v \<Rightarrow> [Call (SetMainContract v)])
         @ (case args g_argOutputDir of None \<Rightarrow> [] | Some v \<Rightarrow> [Call (SetOutputFolder v)])
         @ (case args g_argFile of None \<Rightarrow> [] | Some v \<Rightarrow> [Call (SetFileNamePrefix v)])
         @ (if count args g_argTvmABI \<noteq> 0 then [Call GenerateAbi] else [])
         @ (if count args g_argTvm \<noteq> 0 then [Call GenerateCode] else [])
         @ (if count args g_argTvm = 0 \<and> count args g_argTvmABI = 0
            then [Call GenerateCode, Call GenerateAbi] else [])
         @ [Call WithOptimizations]
         @ (if count args g_argTvmOptimize \<noteq> 0 then [Say tvm_optimize_deprecated] else [])
         @ (if count args g_argDebug \<noteq> 0 then [Call WithDebugInfo] else [])
         @ (case args g_argInputFile of
              None \<Rightarrow> [Throw (StdException (Some bad_any_cast))]
            | Some fileName \<Rightarrow> [Call (SetInputFile fileName)]))"

fun exec_steps :: "engine \<Rightarrow> step list \<Rightarrow> cli_state \<Rightarrow> fault option \<times> cli_state" where
  "exec_steps eng [] st = (None, st)"
| "exec_steps eng (Call c # ss) st =
     (case on_call eng c of
        Some f \<Rightarrow> (Some f, emit (Engine c) st)
      | None \<Rightarrow> exec_steps eng ss (emit (Engine c) st))"
| "exec_steps eng (Say t # ss) st = exec_steps eng ss (serr True t st)"
| "exec_steps eng (Throw f # ss) st = (Some f, st)"

text \<open>One round of the loop over \<open>m_compiler->errors()\<close>.\<close>

definition printError :: "cli_state \<Rightarrow> exn \<Rightarrow> cli_state" where
  "printError st e = emit (FormattedError e) (st\<lparr>g_hasOutput := True\<rparr>)"

text \<open>The body of the \<open>try\<close> block: \<open>Inl\<close> is a fault leaving the block.\<close>

definition try_block ::
  "environment \<Rightarrow> filesystem \<Rightarrow> engine \<Rightarrow> cli_state \<Rightarrow> (fault + bool) \<times> cli_state" where
  "try_block env fs eng st =
     (case exec_steps eng (config_steps st) st of
        (Some f, st1) \<Rightarrow> (Inl f, st1)
      | (None, st1) \<Rightarrow>
          (case run_compile env fs (compile eng) (emit (Engine Compile) st1) of
             (Inl f, st2) \<Rightarrow> (Inl f, st2)
           | (Inr (successful, didCompileSomething, errors), st2) \<Rightarrow>
               (let st3 = st2\<lparr>g_hasOutput := (g_hasOutput st2 \<or> didCompileSomething)\<rparr>;
                    st4 = foldl printError st3 errors
                in (Inr successful, st4))))"

text \<open>
  How control leaves a function other than by a return: an exception that nothing caught, or
  the read of a null pointer (undefined behaviour; the process does not go on).
\<close>

datatype abort = Thrown fault | NullDereference

text \<open>
  The catch clauses, in the order of the source; each ends in \<open>return false\<close>. The clause
  for a documentation parsing error inserts the prefix and then the string that
  \<open>get_error_info<errinfo_comment>\<close> points to, without testing the pointer.
\<close>

fun handle_fault :: "environment \<Rightarrow> fault \<Rightarrow> cli_state \<Rightarrow> (abort + bool) \<times> cli_state" where
  "handle_fault env (CompilerError e) st =
     (Inr False,
      emit (FormattedException (CompilerError e) ''Compiler error'') (st\<lparr>g_hasOutput := True\<rparr>))"
| "handle_fault env (InternalCompilerError e) st =
     (Inr False,
      serr True (''Internal compiler error during compilation:'' @ endl @
                 diagnostic_information env (InternalCompilerError e)) st)"
| "handle_fault env (UnimplementedFeatureError e) st =
     (Inr False,
      serr True (''Unimplemented feature:'' @ endl @
                 diagnostic_information env (UnimplementedFeatureError e)) st)"
| "handle_fault env (Error t e) st =
     (if t = DocstringParsingError
      then (case errinfo_comment e of
              Some comment \<Rightarrow>
                (Inr False, serr True (''Documentation parsing error: '' @ comment @ endl) st)
            | None \<Rightarrow>
                (Inl NullDereference, serr True ''Documentation parsing error: '' st))
      else (Inr False,
            emit (FormattedException (Error t e) (typeName t)) (st\<lparr>g_hasOutput := True\<rparr>)))"
| "handle_fault env (Exception e) st =
     (Inr False,
      serr True (''Exception during compilation: '' @ diagnostic_information env (Exception e) @ endl) st)"
| "handle_fault env (StdException w) st =
     (Inr False,
      serr True (''Unknown exception during compilation'' @
                 (case w of Some t \<Rightarrow> '': '' @ t | None \<Rightarrow> ''.'') @ endl) st)"
| "handle_fault env UnknownFault st =
     (Inr False, serr True (''Unknown exception during compilation.'' @ endl) st)"

text \<open>
  \<open>processInput\<close>. Input loading runs before the \<open>try\<close> block: what it throws leaves the
  function.
\<close>

definition processInput ::
  "environment \<Rightarrow> filesystem \<Rightarrow> (string \<Rightarrow> remapping option) \<Rightarrow> engine \<Rightarrow> cli_state
     \<Rightarrow> (abort + bool) \<times> cli_state" where
  "processInput env fs parseRemapping eng st =
     (case readInputFilesAndConfigureRemappings fs parseRemapping st of
        (Inl f, st1) \<Rightarrow> (Inl (Thrown f), st1)
      | (Inr False, st1) \<Rightarrow> (Inr False, st1)
      | (Inr True, st1) \<Rightarrow>
          (case try_block env fs eng (emit (Engine Construct) st1) of
             (Inl f, st2) \<Rightarrow> handle_fault env f st2
           | (Inr ok, st2) \<Rightarrow> (Inr ok, st2)))"

section \<open>Vocabulary of the properties\<close>

text \<open>
  \<open>put es st\<close> is the state after the events \<open>es\<close> have been written through the
  flag-setting accessors; \<open>written st st'\<close> is what a function that took \<open>st\<close> to
  \<open>st'\<close> appended to the trace; \<open>trace_of\<close> reads the trace after a function that may
  throw.
\<close>

definition put :: "event list \<Rightarrow> cli_state \<Rightarrow> cli_state" where
  "put es st = st\<lparr>g_hasOutput := (g_hasOutput st \<or> es \<noteq> []), trace := trace st @ es\<rparr>"

definition written :: "cli_state \<Rightarrow> cli_state \<Rightarrow> event list" where
  "written st st' = drop (length (trace st)) (trace st')"

definition trace_of :: "fault + cli_state \<Rightarrow> event list" where
  "trace_of r = (case r of Inl f \<Rightarrow> [] | Inr st \<Rightarrow> trace st)"

text \<open>
  The flag follows the writes from \<open>st\<close> to \<open>st'\<close>, and \<open>extra\<close>: the trace only grew,
  and the flag is set afterwards exactly when it was set before, or something was written to
  a stream in between, or \<open>extra\<close> holds.
\<close>

definition follows :: "bool \<Rightarrow> cli_state \<Rightarrow> cli_state \<Rightarrow> bool" where
  "follows extra st st' \<longleftrightarrow>
     (\<exists>es. trace st' = trace st @ es \<and>
           g_hasOutput st' = (g_hasOutput st \<or> (\<exists>e \<in> set es. is_write e) \<or> extra))"

text \<open>
  In the \<open>try\<close> block started in \<open>st\<close>, \<open>compile()\<close> was reached and returned with
  \<open>didCompileSomething\<close> true; and the same for a whole run of \<open>processInput\<close>.
\<close>

definition compile_reported :: "environment \<Rightarrow> filesystem \<Rightarrow> engine \<Rightarrow> cli_state \<Rightarrow> bool" where
  "compile_reported env fs eng st =
     (case exec_steps eng (config_steps st) st of
        (Some f, st1) \<Rightarrow> False
      | (None, st1) \<Rightarrow>
          (case fst (run_compile env fs (compile eng) (emit (Engine Compile) st1)) of
             Inl f \<Rightarrow> False
           | Inr (successful, didCompileSomething, errors) \<Rightarrow> didCompileSomething))"

definition run_reported ::
  "environment \<Rightarrow> filesystem \<Rightarrow> (string \<Rightarrow> remapping option) \<Rightarrow> engine \<Rightarrow> cli_state \<Rightarrow> bool" where
  "run_reported env fs parseRemapping eng st =
     (case readInputFilesAndConfigureRemappings fs parseRemapping st of
        (Inr True, st1) \<Rightarrow> compile_reported env fs eng (emit (Engine Construct) st1)
      | (r, st1) \<Rightarrow> False)"

text \<open>
  The rendering of a caught fault as the spec lists it, by category. A documentation parsing
  error without a comment has none.
\<close>

definition rendering :: "environment \<Rightarrow> fault \<Rightarrow> event option" where
  "rendering env f =
     (case f of
        CompilerError e \<Rightarrow> Some (FormattedException f ''Compiler error'')
      | InternalCompilerError e \<Rightarrow>
          Some (Out Cerr (''Internal compiler error during compilation:'' @ endl @
                          diagnostic_information env f))
      | UnimplementedFeatureError e \<Rightarrow>
          Some (Out Cerr (''Unimplemented feature:'' @ endl @ diagnostic_information env f))
      | Error t e \<Rightarrow>
          (if t = DocstringParsingError
           then (case errinfo_comment e of
                   Some comment \<Rightarrow> Some (Out Cerr (''Documentation parsing error: '' @ comment @ endl))
                 | None \<Rightarrow> None)
           else Some (FormattedException f (typeName t)))
      | Exception e \<Rightarrow>
          Some (Out Cerr (''Exception during compilation: '' @ diagnostic_information env f @ endl))
      | StdException w \<Rightarrow>
          Some (Out Cerr (''Unknown exception during compilation'' @
                          (case w of Some t \<Rightarrow> '': '' @ t | None \<Rightarrow> ''.'') @ endl))
      | UnknownFault \<Rightarrow> Some (Out Cerr (''Unknown exception during compilation.'' @ endl)))"

text \<open>
  A statement of the \<open>try\<close> block that the engine lets pass, and what it leaves in the
  state when it passes.
\<close>

fun accepted :: "engine \<Rightarrow> step \<Rightarrow> bool" where
  "accepted eng (Call c) = (on_call eng c = None)"
| "accepted eng (Say t) = True"
| "accepted eng (Throw f) = False"

fun step_effect :: "cli_state \<Rightarrow> step \<Rightarrow> cli_state" where
  "step_effect st (Call c) = emit (Engine c) st"
| "step_effect st (Say t) = serr True t st"
| "step_effect st (Throw f) = st"

text \<open>The documentation lines of one kind for one contract, as the spec lists them.\<close>

definition natspec_events :: "compiled \<Rightarrow> variables_map \<Rightarrow> bool \<Rightarrow> string \<Rightarrow> event list" where
  "natspec_events c args dev contract =
     (if dev
      then (if count args g_argNatspecDev \<noteq> 0
            then [Out Cout (''Developer Documentation'' @ endl), Out Cout (natspecDev c contract @ endl)]
            else [])
      else (if count args g_argNatspecUser \<noteq> 0
            then [Out Cout (''User Documentation'' @ endl), Out Cout (natspecUser c contract @ endl)]
            else []))"

definition contract_events :: "compiled \<Rightarrow> variables_map \<Rightarrow> string \<Rightarrow> event list" where
  "contract_events c args contract =
     (if needsHumanTargetedStdout args then [Out Cout (banner contract)] else [])
     @ natspec_events c args True contract @ natspec_events c args False contract"

text \<open>
  The syntax-tree section for one option, as the spec lists it: nothing when the option was
  not requested; otherwise the title, then for every unit of the source mapping, in the
  order of the mapping, the banner of the unit and its serialized tree.
\<close>

definition ast_events :: "compiled \<Rightarrow> cli_state \<Rightarrow> string \<Rightarrow> string \<Rightarrow> event list" where
  "ast_events c st argStr title =
     (if count (m_args st) argStr \<noteq> 0
      then Out Cout (title @ endl @ endl) #
           concat (map (\<lambda>name. [Out Cout (banner name),
                                 Out Cout (astJson c (count (m_args st) g_argAstCompactJson = 0) name)])
                       (map fst (m_sourceCodes st)))
      else [])"

text \<open>
  Modelled from the spec: \<open>CompilerStack::parseRemapping\<close> is not among the sources. In the
  spec the text before the first \<open>=\<close> is an optional context and a prefix and the text after
  it is the target, and the token \<open>ctxA:lib=./vendor\<close> has context \<open>ctxA\<close>, prefix \<open>lib\<close>
  and target \<open>./vendor\<close>: the context ends at the first colon and is empty when there is
  none. The spec leaves the syntax rules that reject a token to the engine; here only a token
  without \<open>=\<close> is rejected.
\<close>

definition parseRemapping_spec :: "string \<Rightarrow> remapping option" where
  "parseRemapping_spec s =
     (if CHR ''='' \<notin> set s then None
      else
        (let before = takeWhile (\<lambda>c. c \<noteq> CHR ''='') s;
             after = tl (dropWhile (\<lambda>c. c \<noteq> CHR ''='') s)
         in if CHR '':'' \<in> set before
            then Some \<lparr>context = takeWhile (\<lambda>c. c \<noteq> CHR '':'') before,
                        prefix = tl (dropWhile (\<lambda>c. c \<noteq> CHR '':'') before),
                        target = after\<rparr>
            else Some \<lparr>context = [], prefix = before, target = after\<rparr>))"

subsection \<open>Concrete surroundings for the examples\<close>

text \<open>A driver object just constructed.\<close>

definition initial_state :: cli_state where
  "initial_state =
     \<lparr>g_hasOutput = False, trace = [], m_args = Map.empty, m_sourceCodes = [],
      m_remappings = [], m_allowedDirectories = [], m_coloredOutput = False, m_error = False\<rparr>"

text \<open>The driver after a run of input loading that read \<open>a.sol\<close>.\<close>

definition loaded_state :: cli_state where
  "loaded_state =
     initial_state\<lparr>m_args := [g_argInputFile \<mapsto> ''a.sol''],
                   m_sourceCodes := [(''a.sol'', ''contract C {}'')]\<rparr>"

text \<open>
  A working directory \<open>/w\<close> holding one regular file \<open>a.sol\<close> and one directory \<open>dir\<close>;
  no operation throws.
\<close>

definition absolute :: "string \<Rightarrow> string" where
  "absolute p = (if take 1 p = ''/'' then p else ''/w/'' @ p)"

definition example_fs :: filesystem where
  "example_fs =
     \<lparr>fs_exists = (\<lambda>p. Inr (absolute p = ''/w/a.sol'' \<or> absolute p = ''/w/dir'')),
      fs_is_regular_file = (\<lambda>p. Inr (absolute p = ''/w/a.sol'')),
      fs_canonical = (\<lambda>p. Inr (absolute p)),
      fs_weakly_canonical = (\<lambda>p. Inr (absolute p)),
      readFileAsString = (\<lambda>p. Inr (if absolute p = ''/w/a.sol'' then ''contract C {}'' else [])),
      generic_string = (\<lambda>p. p),
      remove_filename = (\<lambda>p. rev (dropWhile (\<lambda>c. c \<noteq> CHR ''/'') (rev p)))\<rparr>"

text \<open>A file system whose every disk operation throws.\<close>

definition broken_fs :: filesystem where
  "broken_fs =
     \<lparr>fs_exists = (\<lambda>p. Inl UnknownFault),
      fs_is_regular_file = (\<lambda>p. Inl UnknownFault),
      fs_canonical = (\<lambda>p. Inl UnknownFault),
      fs_weakly_canonical = (\<lambda>p. Inl UnknownFault),
      readFileAsString = (\<lambda>p. Inl UnknownFault),
      generic_string = (\<lambda>p. p),
      remove_filename = (\<lambda>p. rev (dropWhile (\<lambda>c. c \<noteq> CHR ''/'') (rev p)))\<rparr>"

text \<open>
  An option parser that takes every argument after the program name as a positional token,
  no terminal, and fixed texts.
\<close>

definition example_env :: environment where
  "example_env =
     \<lparr>cmdLineParser_run = (\<lambda>argv. Inr (map (\<lambda>a. (g_argInputFile, a)) (drop 1 argv))),
      po_what = (\<lambda>e. case e of
                         ParseError t \<Rightarrow> t
                       | MultipleOccurrences k \<Rightarrow> ''option '' @ k @ '' cannot be specified more than once''),
      isatty_stderr = False,
      isatty_stdin = False,
      VersionString = ''0.0.0'',
      otherLicenses = ''other licenses'',
      licenseText = ''license text'',
      diagnostic_information = (\<lambda>f. ''diagnostic information''),
      kindString_ReadFile = ''source''\<rparr>"

text \<open>An option parser that finds the two artifact options and one input file.\<close>

definition both_artifacts_env :: environment where
  "both_artifacts_env =
     example_env\<lparr>cmdLineParser_run :=
       (\<lambda>argv. Inr [(g_argTvmABI, []), (g_argTvm, []), (g_argInputFile, ''a.sol'')])\<rparr>"

text \<open>An engine that accepts every call and compiles something without asking for a file.\<close>

definition example_engine :: engine where
  "example_engine = \<lparr>on_call = (\<lambda>c. None), compile = Finished True True []\<rparr>"

text \<open>An engine whose \<open>compile()\<close> throws an internal compiler error.\<close>

definition failing_engine :: engine where
  "failing_engine =
     \<lparr>on_call = (\<lambda>c. None),
      compile = Raised (InternalCompilerError \<lparr>errinfo_comment = Some ''assertion'', detail = []\<rparr>)\<rparr>"

text \<open>An engine that refuses the sources with a compiler error.\<close>

definition refusing_engine :: engine where
  "refusing_engine =
     \<lparr>on_call = (\<lambda>c. case c of
                        SetSources srcs \<Rightarrow>
                          Some (CompilerError \<lparr>errinfo_comment = Some ''no sources'', detail = []\<rparr>)
                      | _ \<Rightarrow> None),
      compile = Finished True True []\<rparr>"

text \<open>
  An engine whose \<open>compile()\<close> reads \<open>a.sol\<close> through the source reader and then throws
  a documentation parsing error with no comment attached.
\<close>

definition uncommented_engine :: engine where
  "uncommented_engine =
     \<lparr>on_call = (\<lambda>c. None),
      compile = ReadCallback ''source'' ''a.sol''
                  (\<lambda>r. Raised (Error DocstringParsingError \<lparr>errinfo_comment = None, detail = []\<rparr>))\<rparr>"

text \<open>The engine after a successful run with one contract \<open>C\<close>.\<close>

definition example_compiled :: compiled where
  "example_compiled =
     \<lparr>compilationSuccessful = True, contractNames = [''C''],
      astJson = (\<lambda>legacy name. ''{}''),
      natspecDev = (\<lambda>name. ''{dev}''),
      natspecUser = (\<lambda>name. ''{user}'')\<rparr>"

text \<open>A remapping parser that rejects every token.\<close>

definition rejecting_parser :: "string \<Rightarrow> remapping option" where
  "rejecting_parser s = None"

text \<open>A driver object whose options hold one positional token.\<close>

definition state_with_input :: "string \<Rightarrow> cli_state" where
  "state_with_input tok = initial_state\<lparr>m_args := [g_argInputFile \<mapsto> tok]\<rparr>"

section \<open>Auxiliary facts\<close>

lemmas arg_names =
  g_argAstJson_def g_argAstCompactJson_def g_argHelp_def g_argInputFile_def g_strLicense_def
  g_argNatspecDev_def g_argNatspecUser_def g_argOutputDir_def g_argFile_def g_argVersion_def
  g_argDebug_def g_argSetContract_def g_argTvm_def g_argTvmABI_def g_argTvmOptimize_def
  g_argTvmPeephole_def g_argTvmUnsavedStructs_def

lemma put_Nil [simp]: "put [] st = st"
  by (simp add: put_def)

lemma put_put [simp]: "put bs (put as st) = put (as @ bs) st"
  by (auto simp: put_def)

lemma put_sel [simp]:
  "trace (put es st) = trace st @ es"
  "g_hasOutput (put es st) = (g_hasOutput st \<or> es \<noteq> [])"
  "m_args (put es st) = m_args st"
  "m_sourceCodes (put es st) = m_sourceCodes st"
  "m_remappings (put es st) = m_remappings st"
  "m_allowedDirectories (put es st) = m_allowedDirectories st"
  by (simp_all add: put_def)

lemma sout_put: "sout t st = put [Out Cout t] st"
  by (simp add: sout_def emit_def put_def)

lemma serr_put: "serr True t st = put [Out Cerr t] st"
  by (simp add: serr_def emit_def put_def)

lemma handleNatspec_put: "handleNatspec c dev contract st = put (natspec_events c (m_args st) dev contract) st"
  by (simp add: handleNatspec_def natspec_events_def sout_put Let_def)

lemma contractOutput_put: "contractOutput c st contract = put (contract_events c (m_args st) contract) st"
  by (simp add: contractOutput_def contract_events_def handleNatspec_put sout_put)

lemma foldl_contractOutput:
  "foldl (contractOutput c) st names = put (concat (map (contract_events c (m_args st)) names)) st"
  by (induction names arbitrary: st) (simp_all add: contractOutput_put)

lemma outputContracts_put:
  "outputContracts c st = put (concat (map (contract_events c (m_args st)) (contractNames c))) st"
  by (simp add: outputContracts_def foldl_contractOutput)

lemma astUnit_put:
  "astUnit c l st name = put [Out Cout (banner name), Out Cout (astJson c l name)] st"
  by (simp add: astUnit_def sout_put)

lemma foldl_astUnit:
  "foldl (astUnit c l) st names =
     put (concat (map (\<lambda>name. [Out Cout (banner name), Out Cout (astJson c l name)]) names)) st"
  by (induction names arbitrary: st) (simp_all add: astUnit_put)

lemma handleAst_json:
  "handleAst c g_argAstJson st = Inr (put (ast_events c st g_argAstJson ''JSON AST:'') st)"
  by (simp add: handleAst_def astTitle_def ast_events_def foldl_astUnit sout_put)

lemma handleAst_compact:
  "handleAst c g_argAstCompactJson st =
     Inr (put (ast_events c st g_argAstCompactJson ''JSON AST (compact format):'') st)"
  by (simp add: handleAst_def astTitle_def ast_events_def foldl_astUnit sout_put arg_names)

lemma ast_events_put [simp]: "ast_events c (put es st) a t = ast_events c st a t"
  by (simp add: ast_events_def)

lemma astStage_put:
  "astStage c st =
     Inr (put (ast_events c st g_argAstJson ''JSON AST:'' @
               ast_events c st g_argAstCompactJson ''JSON AST (compact format):'') st)"
  by (simp add: astStage_def handleAst_json handleAst_compact)

lemma follows_refl [simp]: "follows False st st"
  by (simp add: follows_def)

lemma follows_trans: "follows x a b \<Longrightarrow> follows y b c \<Longrightarrow> follows (x \<or> y) a c"
  by (auto simp: follows_def)

lemma follows_trans0: "follows False a b \<Longrightarrow> follows y b c \<Longrightarrow> follows y a c"
  using follows_trans [of False a b y c] by simp

lemma follows_trans1: "follows x a b \<Longrightarrow> follows False b c \<Longrightarrow> follows x a c"
  using follows_trans [of x a b False c] by simp

lemma follows_put [simp]: "list_all is_write es \<Longrightarrow> follows False st (put es st)"
  by (cases es) (auto simp: follows_def)

lemma follows_sout [simp]: "follows False st (sout t st)"
  by (simp add: sout_put)

lemma follows_serr [simp]: "follows False st (serr True t st)"
  by (simp add: serr_put)

lemma follows_emit [simp]: "\<not> is_write e \<Longrightarrow> follows False st (emit e st)"
  by (simp add: follows_def emit_def)

lemma follows_written:
  "follows extra st st' \<Longrightarrow>
   g_hasOutput st' = (g_hasOutput st \<or> (\<exists>e \<in> set (written st st'). is_write e) \<or> extra)"
  by (auto simp: follows_def written_def)

lemma written_put [simp]: "written st (put es st) = es"
  by (simp add: written_def)

lemma follows_loadInputFile: "follows False st (snd (loadInputFile fs pr st))"
  by (auto simp: loadInputFile_def follows_def serr_def emit_def Let_def
           split: option.splits sum.splits bool.splits)

lemma follows_readInputFiles: "follows False st (snd (readInputFilesAndConfigureRemappings fs pr st))"
proof -
  obtain r st1 where l: "loadInputFile fs pr st = (r, st1)"
    by (cases "loadInputFile fs pr st")
  with follows_loadInputFile [of st fs pr] have t: "follows False st st1" by simp
  have "follows False st1 (serr True no_input_files st1)" by simp
  with t have "follows False st (serr True no_input_files st1)" by (rule follows_trans0)
  with t l show ?thesis
    by (simp add: readInputFilesAndConfigureRemappings_def split: sum.splits bool.splits)
qed

lemma fileReader_frame:
  "trace (snd (fileReader env fs kind path st)) = trace st"
  "g_hasOutput (snd (fileReader env fs kind path st)) = g_hasOutput st"
  "m_args (snd (fileReader env fs kind path st)) = m_args st"
  "m_remappings (snd (fileReader env fs kind path st)) = m_remappings st"
  "m_allowedDirectories (snd (fileReader env fs kind path st)) = m_allowedDirectories st"
  by (simp_all add: fileReader_def fileReader_try_def split: sum.splits bool.splits)

lemma run_compile_frame:
  "g_hasOutput (snd (run_compile env fs cr st)) = g_hasOutput st \<and>
   m_args (snd (run_compile env fs cr st)) = m_args st \<and>
   m_remappings (snd (run_compile env fs cr st)) = m_remappings st \<and>
   m_allowedDirectories (snd (run_compile env fs cr st)) = m_allowedDirectories st"
proof (induction cr arbitrary: st)
  case (Finished s d errs)
  show ?case by simp
next
  case (Raised f)
  show ?case by simp
next
  case (ReadCallback kind path k)
  let ?st0 = "emit (SourceReader kind path) st"
  obtain r st' where fr: "fileReader env fs kind path ?st0 = (r, st')"
    by (cases "fileReader env fs kind path ?st0")
  from fileReader_frame [of env fs kind path ?st0] fr
  have "g_hasOutput st' = g_hasOutput st" "m_args st' = m_args st"
    "m_remappings st' = m_remappings st" "m_allowedDirectories st' = m_allowedDirectories st"
    by (simp_all add: emit_def)
  with ReadCallback.IH [of "k r" st'] fr show ?case
    by simp
qed

lemma run_compile_follows: "follows False st (snd (run_compile env fs cr st))"
proof (induction cr arbitrary: st)
  case (Finished s d errs)
  show ?case by simp
next
  case (Raised f)
  show ?case by simp
next
  case (ReadCallback kind path k)
  let ?st0 = "emit (SourceReader kind path) st"
  obtain r st' where fr: "fileReader env fs kind path ?st0 = (r, st')"
    by (cases "fileReader env fs kind path ?st0")
  have "follows False st ?st0" by simp
  moreover from fileReader_frame [of env fs kind path ?st0] fr have "follows False ?st0 st'"
    by (simp add: follows_def)
  ultimately have "follows False st st'" by (rule follows_trans0)
  moreover from ReadCallback.IH [of "k r" st']
  have "follows False st' (snd (run_compile env fs (k r) st'))"
    by simp
  ultimately have "follows False st (snd (run_compile env fs (k r) st'))" by (rule follows_trans0)
  with fr show ?case by simp
qed

lemma exec_steps_follows: "follows False st (snd (exec_steps eng ss st))"
proof (induction eng ss st rule: exec_steps.induct)
  case (1 eng st)
  show ?case by simp
next
  case (2 eng c ss st)
  have e: "follows False st (emit (Engine c) st)" by simp
  show ?case
  proof (cases "on_call eng c")
    case None
    with 2 have "follows False (emit (Engine c) st) (snd (exec_steps eng (Call c # ss) st))" by simp
    with e show ?thesis by (rule follows_trans0)
  next
    case (Some f)
    with e show ?thesis by simp
  qed
next
  case (3 eng t ss st)
  have "follows False st (serr True t st)" by simp
  moreover from 3 have "follows False (serr True t st) (snd (exec_steps eng (Say t # ss) st))" by simp
  ultimately show ?case by (rule follows_trans0)
next
  case (4 eng f ss st)
  show ?case by simp
qed

lemma exec_steps_frame:
  "m_args (snd (exec_steps eng ss st)) = m_args st \<and>
   m_sourceCodes (snd (exec_steps eng ss st)) = m_sourceCodes st \<and>
   m_remappings (snd (exec_steps eng ss st)) = m_remappings st \<and>
   m_allowedDirectories (snd (exec_steps eng ss st)) = m_allowedDirectories st"
  by (induction eng ss st rule: exec_steps.induct)
     (auto simp: emit_def serr_def split: option.splits)

lemma foldl_printError:
  "foldl printError st errs = put (map FormattedError errs) st"
proof (induction errs arbitrary: st)
  case Nil
  show ?case by simp
next
  case (Cons e errs)
  have "printError st e = put [FormattedError e] st"
    by (simp add: printError_def put_def emit_def)
  with Cons show ?case by simp
qed

lemma follows_flag: "follows d st (st\<lparr>g_hasOutput := (g_hasOutput st \<or> d)\<rparr>)"
  by (simp add: follows_def)

lemma follows_try_block:
  "follows (compile_reported env fs eng st) st (snd (try_block env fs eng st))"
proof -
  obtain o1 st1 where e: "exec_steps eng (config_steps st) st = (o1, st1)"
    by (cases "exec_steps eng (config_steps st) st")
  with exec_steps_follows [of st eng "config_steps st"] have t1: "follows False st st1" by simp
  show ?thesis
  proof (cases o1)
    case (Some f)
    with e t1 show ?thesis by (simp add: try_block_def compile_reported_def)
  next
    case None
    let ?st1' = "emit (Engine Compile) st1"
    obtain o2 st2 where r: "run_compile env fs (compile eng) ?st1' = (o2, st2)"
      by (cases "run_compile env fs (compile eng) ?st1'")
    have "follows False st1 ?st1'" by simp
    with t1 have t1': "follows False st ?st1'" by (rule follows_trans0)
    from run_compile_follows [of ?st1' env fs "compile eng"] r
    have "follows False ?st1' st2" by simp
    with t1' have t2: "follows False st st2" by (rule follows_trans0)
    show ?thesis
    proof (cases o2)
      case (Inl f)
      with e None r t2 show ?thesis by (simp add: try_block_def compile_reported_def)
    next
      case (Inr res)
      obtain s d errs where res: "res = (s, d, errs)" by (cases res)
      let ?st3 = "st2\<lparr>g_hasOutput := (g_hasOutput st2 \<or> d)\<rparr>"
      have "follows d st2 ?st3" by (rule follows_flag)
      with t2 have t3: "follows d st ?st3" by (rule follows_trans0)
      have "follows False ?st3 (put (map FormattedError errs) ?st3)"
        by (rule follows_put) (simp add: list_all_iff)
      with t3 have "follows d st (put (map FormattedError errs) ?st3)" by (rule follows_trans1)
      with e None r Inr res show ?thesis
        by (simp add: try_block_def foldl_printError compile_reported_def)
    qed
  qed
qed

lemma follows_handle_fault: "follows False st (snd (handle_fault env f st))"
  by (cases f) (simp_all add: follows_def serr_def emit_def split: option.splits)

lemma follows_processInput:
  "follows (run_reported env fs pr eng st) st (snd (processInput env fs pr eng st))"
proof -
  obtain r st1 where l: "readInputFilesAndConfigureRemappings fs pr st = (r, st1)"
    by (cases "readInputFilesAndConfigureRemappings fs pr st")
  with follows_readInputFiles [of st fs pr] have t1: "follows False st st1" by simp
  show ?thesis
  proof (cases "r = Inr True")
    case False
    with l t1 show ?thesis
      by (cases r) (auto simp: processInput_def run_reported_def split: bool.splits)
  next
    case True
    let ?st1' = "emit (Engine Construct) st1"
    let ?x = "compile_reported env fs eng ?st1'"
    obtain o2 st2 where b: "try_block env fs eng ?st1' = (o2, st2)"
      by (cases "try_block env fs eng ?st1'")
    have "follows False st1 ?st1'" by simp
    with t1 have "follows False st ?st1'" by (rule follows_trans0)
    moreover from follows_try_block [of env fs eng ?st1'] b have "follows ?x ?st1' st2" by simp
    ultimately have t2: "follows ?x st st2" by (rule follows_trans0)
    have "\<And>f. follows ?x st (snd (handle_fault env f st2))"
      using t2 follows_handle_fault by (rule follows_trans1)
    with l b True t2 show ?thesis
      by (simp add: processInput_def run_reported_def split: sum.splits)
  qed
qed

lemma follows_parseArguments:
  "follows False (st\<lparr>g_hasOutput := False\<rparr>) (snd (parseArguments env argv st))"
  by (auto simp: parseArguments_def follows_def Let_def serr_def sout_def emit_def version_def license_def
           split: sum.splits option.splits prod.splits)

lemma parseArguments_flag:
  "g_hasOutput (snd (parseArguments env argv st)) =
     (\<exists>e \<in> set (written st (snd (parseArguments env argv st))). is_write e)"
  using follows_written [OF follows_parseArguments [of st env argv]]
  by (simp add: written_def)

lemma parseArguments_reset:
  "parseArguments env argv (st\<lparr>g_hasOutput := b\<rparr>) = parseArguments env argv st"
  by (simp add: parseArguments_def)

lemma needsHumanTargetedStdout_iff:
  "needsHumanTargetedStdout args \<longleftrightarrow>
     count args g_argAstJson \<noteq> 0 \<or> count args g_argNatspecUser \<noteq> 0 \<or> count args g_argNatspecDev \<noteq> 0"
  by (simp add: needsHumanTargetedStdout_def)

lemma written_outputContracts:
  "written st (outputContracts c st) = concat (map (contract_events c (m_args st)) (contractNames c))"
  by (simp add: outputContracts_put)

lemma contract_events_quiet:
  "\<not> needsHumanTargetedStdout args \<Longrightarrow> contract_events c args contract = []"
  by (simp add: contract_events_def natspec_events_def needsHumanTargetedStdout_iff)

lemma outputCompilationResults_put:
  "outputCompilationResults c st =
     Inr (put (ast_events c st g_argAstJson ''JSON AST:'' @
               ast_events c st g_argAstCompactJson ''JSON AST (compact format):'' @
               (if \<not> compilationSuccessful c then [Out Cerr halt_notice]
                else concat (map (contract_events c (m_args st)) (contractNames c)) @
                     (if g_hasOutput st \<or>
                         ast_events c st g_argAstJson ''JSON AST:'' \<noteq> [] \<or>
                         ast_events c st g_argAstCompactJson ''JSON AST (compact format):'' \<noteq> [] \<or>
                         concat (map (contract_events c (m_args st)) (contractNames c)) \<noteq> []
                      then [] else [Out Cerr advisory]))) st)"
  by (simp add: outputCompilationResults_def astStage_put outputContracts_put serr_put Let_def)

lemma ast_events_cout: "e \<in> set (ast_events c st a t) \<Longrightarrow> \<exists>x. e = Out Cout x"
  by (auto simp: ast_events_def split: if_splits)

lemma contract_events_cout: "e \<in> set (contract_events c args n) \<Longrightarrow> \<exists>x. e = Out Cout x"
  by (auto simp: contract_events_def natspec_events_def split: if_splits)

lemma halt_notice_neq_advisory: "halt_notice \<noteq> advisory"
  by (simp add: halt_notice_def advisory_def endl_def)

lemma list_all_write_ast: "list_all is_write (ast_events c st a t)"
  by (auto simp: list_all_iff dest: ast_events_cout)

lemma list_all_write_contract: "list_all is_write (concat (map (contract_events c args) ns))"
  by (auto simp: list_all_iff dest: contract_events_cout)

lemma advisory_iff:
  "\<exists>st2 st'. astStage c st = Inr st2 \<and> outputCompilationResults c st = Inr st' \<and>
     ((Out Cerr advisory \<in> set (written st st')) =
        (compilationSuccessful c \<and> \<not> g_hasOutput (outputContracts c st2))) \<and>
     ((\<exists>t. Out Cout t \<in> set (written st st')) \<longrightarrow> Out Cerr advisory \<notin> set (written st st'))"
proof -
  let ?A = "ast_events c st g_argAstJson ''JSON AST:''"
  let ?B = "ast_events c st g_argAstCompactJson ''JSON AST (compact format):''"
  let ?C = "concat (map (contract_events c (m_args st)) (contractNames c))"
  have a: "Out Cerr advisory \<notin> set ?A" "Out Cerr advisory \<notin> set ?B"
    by (auto dest: ast_events_cout)
  have c: "Out Cerr advisory \<notin> set ?C"
    by (auto dest: contract_events_cout)
  have q: "\<And>t. Out Cout t \<in> set ?A \<Longrightarrow> ?A \<noteq> []" "\<And>t. Out Cout t \<in> set ?B \<Longrightarrow> ?B \<noteq> []"
    "\<And>t. Out Cout t \<in> set ?C \<Longrightarrow> ?C \<noteq> []"
    by (metis empty_iff empty_set)+
  show ?thesis
    unfolding astStage_put outputCompilationResults_put
    using a c q halt_notice_neq_advisory
    by (simp add: outputContracts_put del: set_concat concat_eq_Nil_conv)
qed

lemma didCompileSomething_sets_flag:
  "exec_steps eng (config_steps st) st = (None, st1) \<Longrightarrow>
   run_compile env fs (compile eng) (emit (Engine Compile) st1) = (Inr (s, True, errs), st2) \<Longrightarrow>
   g_hasOutput (snd (try_block env fs eng st))"
  by (simp add: try_block_def foldl_printError)

lemma example_steps:
  "exec_steps example_engine (config_steps loaded_state) loaded_state =
     (None, loaded_state\<lparr>trace :=
        [Engine (SetRemappings []), Engine (SetSources [(''a.sol'', ''contract C {}'')]),
         Engine GenerateCode, Engine GenerateAbi, Engine WithOptimizations,
         Engine (SetInputFile ''a.sol'')]\<rparr>)"
  by (simp add: config_steps_def loaded_state_def initial_state_def example_engine_def
        count_def arg_names emit_def)

lemma loaded_example:
  "readInputFilesAndConfigureRemappings example_fs pr
     (initial_state\<lparr>m_args := [g_argInputFile \<mapsto> ''a.sol'']\<rparr>) =
   (Inr True, loaded_state\<lparr>m_allowedDirectories := [''/w/'']\<rparr>)"
  by (simp add: readInputFilesAndConfigureRemappings_def loadInputFile_def example_fs_def
        loaded_state_def initial_state_def absolute_def arg_names)

lemma update_lookup: "map_of (AList.update k v al) k = Some v"
  by (simp add: update_conv')

lemma update_not_Nil: "AList.update k v al \<noteq> []"
  by (cases al) auto

lemma readInputFiles_plain:
  "m_args st g_argInputFile = Some tok \<Longrightarrow> CHR ''='' \<notin> set tok \<Longrightarrow>
   readInputFilesAndConfigureRemappings fs pr st =
     (case fs_exists fs tok of
        Inl f \<Rightarrow> (Inl f, st)
      | Inr False \<Rightarrow> (Inr False, serr True (path_insert tok @ '' is not found.'' @ endl) st)
      | Inr True \<Rightarrow>
          (case fs_is_regular_file fs tok of
             Inl f \<Rightarrow> (Inl f, st)
           | Inr False \<Rightarrow> (Inr False, serr True (path_insert tok @ '' is not a valid file.'' @ endl) st)
           | Inr True \<Rightarrow>
               (case readFileAsString fs tok of
                  Inl f \<Rightarrow> (Inl f, st)
                | Inr contents \<Rightarrow>
                    (case fs_canonical fs tok of
                       Inl f \<Rightarrow>
                         (Inl f, st\<lparr>m_sourceCodes :=
                                      AList.update (generic_string fs tok) contents (m_sourceCodes st)\<rparr>)
                     | Inr cpath \<Rightarrow>
                         (Inr True,
                          st\<lparr>m_sourceCodes :=
                                AList.update (generic_string fs tok) contents (m_sourceCodes st),
                             m_allowedDirectories := m_allowedDirectories st @ [remove_filename fs cpath]\<rparr>)))))"
  by (simp add: readInputFilesAndConfigureRemappings_def loadInputFile_def update_not_Nil Let_def
           split: sum.splits bool.splits)

lemma readInputFiles_remapping:
  "m_args st g_argInputFile = Some tok \<Longrightarrow> CHR ''='' \<in> set tok \<Longrightarrow>
   readInputFilesAndConfigureRemappings fs pr st =
     (case pr tok of
        None \<Rightarrow> (Inr False, serr True (''Invalid remapping: '' @ dquote @ tok @ dquote @ ''.'' @ endl) st)
      | Some r \<Rightarrow>
          (let st1 = st\<lparr>m_remappings := m_remappings st @ [r],
                        m_allowedDirectories := m_allowedDirectories st @
                          [remove_filename fs (tl (dropWhile (\<lambda>c. c \<noteq> CHR ''='') tok))]\<rparr>
           in if m_sourceCodes st = [] then (Inr False, serr True no_input_files st1)
              else (Inr True, st1)))"
  by (simp add: readInputFilesAndConfigureRemappings_def loadInputFile_def serr_def emit_def Let_def
           split: option.splits)

lemma readInputFiles_absent:
  "m_args st g_argInputFile = None \<Longrightarrow>
   readInputFilesAndConfigureRemappings fs pr st =
     (if m_sourceCodes st = [] then (Inr False, serr True no_input_files st) else (Inr True, st))"
  by (simp add: readInputFilesAndConfigureRemappings_def loadInputFile_def)

lemma state_with_input_sel [simp]:
  "m_args (state_with_input tok) g_argInputFile = Some tok"
  "m_sourceCodes (state_with_input tok) = []"
  "m_remappings (state_with_input tok) = []"
  "m_allowedDirectories (state_with_input tok) = []"
  "trace (state_with_input tok) = []"
  "g_hasOutput (state_with_input tok) = False"
  by (simp_all add: state_with_input_def initial_state_def)

lemma is_engine_filter_serr [simp]:
  "filter is_engine (trace (serr u t st)) = filter is_engine (trace st)"
  by (simp add: serr_def emit_def)

lemma allowed_parseArguments:
  "m_allowedDirectories (snd (parseArguments env argv st)) = m_allowedDirectories st"
  by (simp add: parseArguments_def Let_def serr_def sout_def emit_def version_def license_def
           split: sum.splits option.splits prod.splits)

lemma allowed_outputCompilationResults:
  "outputCompilationResults c st = Inr st' \<Longrightarrow> m_allowedDirectories st' = m_allowedDirectories st"
  by (auto simp: outputCompilationResults_put)

lemma remapping_token_example:
  "readInputFilesAndConfigureRemappings example_fs parseRemapping_spec (state_with_input ''ctxA:lib=./vendor'') =
     (Inr False,
      serr True no_input_files
        ((state_with_input ''ctxA:lib=./vendor'')
           \<lparr>m_remappings := [\<lparr>context = ''ctxA'', prefix = ''lib'', target = ''./vendor''\<rparr>],
            m_allowedDirectories := [''./'']\<rparr>))"
  by (simp add: readInputFiles_remapping parseRemapping_spec_def example_fs_def)

lemma po_store_ok:
  "fst (po_store opts m) = None \<Longrightarrow> distinct (map fst opts) \<and> (\<forall>k \<in> set (map fst opts). m k = None)"
proof (induction opts arbitrary: m)
  case Nil
  show ?case by simp
next
  case (Cons kv opts)
  obtain k v where kv: "kv = (k, v)" by (cases kv)
  from Cons.prems kv have n: "m k = None"
    by (cases "m k") simp_all
  with Cons.prems kv have "fst (po_store opts (m(k \<mapsto> v))) = None" by simp
  from Cons.IH [OF this] have d: "distinct (map fst opts)"
    and a: "\<forall>k' \<in> set (map fst opts). (m(k \<mapsto> v)) k' = None" by simp_all
  from a have "k \<notin> set (map fst opts)" by auto
  moreover from a have "\<forall>k' \<in> set (map fst opts). m k' = None"
    by (auto split: if_splits)
  ultimately show ?case using d n kv by simp
qed

lemma parseArguments_repeated_option:
  "cmdLineParser_run env argv = Inr opts \<Longrightarrow> \<not> distinct (map fst opts) \<Longrightarrow>
   fst (parseArguments env argv st) = Returned False \<and>
   m_sourceCodes (snd (parseArguments env argv st)) = m_sourceCodes st \<and>
   m_remappings (snd (parseArguments env argv st)) = m_remappings st"
proof -
  assume r: "cmdLineParser_run env argv = Inr opts" and nd: "\<not> distinct (map fst opts)"
  obtain e m where s: "po_store opts (m_args (st\<lparr>g_hasOutput := False\<rparr>)) = (e, m)"
    by (cases "po_store opts (m_args (st\<lparr>g_hasOutput := False\<rparr>))")
  with po_store_ok [of opts "m_args (st\<lparr>g_hasOutput := False\<rparr>)"] nd have "e \<noteq> None"
    by auto
  then obtain x where "e = Some x" by auto
  with r s show ?thesis
    by (simp add: parseArguments_def serr_def emit_def)
qed

lemma follows_outputCompilationResults:
  "\<exists>st'. outputCompilationResults c st = Inr st' \<and> follows False st st'"
proof -
  let ?A = "ast_events c st g_argAstJson ''JSON AST:''"
  let ?B = "ast_events c st g_argAstCompactJson ''JSON AST (compact format):''"
  let ?C = "concat (map (contract_events c (m_args st)) (contractNames c))"
  let ?R = "if \<not> compilationSuccessful c then [Out Cerr halt_notice]
            else ?C @ (if g_hasOutput st \<or> ?A \<noteq> [] \<or> ?B \<noteq> [] \<or> ?C \<noteq> [] then [] else [Out Cerr advisory])"
  have "list_all is_write ?R"
    using list_all_write_contract [of c "m_args st" "contractNames c"] by simp
  then have "list_all is_write (?A @ ?B @ ?R)"
    using list_all_write_ast [of c st g_argAstJson] list_all_write_ast [of c st g_argAstCompactJson]
    by simp
  then have "follows False st (put (?A @ ?B @ ?R) st)"
    by (rule follows_put)
  then show ?thesis
    by (simp add: outputCompilationResults_put)
qed

lemma exec_steps_accepted:
  "\<forall>s \<in> set ss. accepted eng s \<Longrightarrow> exec_steps eng ss st = (None, foldl step_effect st ss)"
proof (induction ss arbitrary: st)
  case Nil
  show ?case by simp
next
  case (Cons s ss)
  then show ?case by (cases s) simp_all
qed

lemma exec_steps_refused:
  "\<forall>s \<in> set pre. accepted eng s \<Longrightarrow> on_call eng c = Some f \<Longrightarrow>
   exec_steps eng (pre @ Call c # post) st = (Some f, emit (Engine c) (foldl step_effect st pre))"
proof (induction pre arbitrary: st)
  case Nil
  then show ?case by simp
next
  case (Cons s pre)
  then show ?case by (cases s) simp_all
qed

lemma exec_steps_thrown:
  "\<forall>s \<in> set pre. accepted eng s \<Longrightarrow>
   exec_steps eng (pre @ Throw f # post) st = (Some f, foldl step_effect st pre)"
proof (induction pre arbitrary: st)
  case Nil
  then show ?case by simp
next
  case (Cons s pre)
  then show ?case by (cases s) simp_all
qed

lemma handle_fault_rendering:
  "rendering env f = Some ev \<Longrightarrow>
   handle_fault env f st = (Inr False, st\<lparr>g_hasOutput := True, trace := trace st @ [ev]\<rparr>)"
  by (cases f) (auto simp: rendering_def serr_def emit_def split: if_splits option.splits)

lemma handle_fault_not_thrown: "fst (handle_fault env f st) \<noteq> Inl (Thrown f')"
  by (cases f) (simp_all split: option.splits)

lemma processInput_not_thrown:
  "readInputFilesAndConfigureRemappings fs pr st = (Inr True, st1) \<Longrightarrow>
   fst (processInput env fs pr eng st) \<noteq> Inl (Thrown f)"
  by (simp add: processInput_def handle_fault_not_thrown split: prod.splits sum.splits)

lemma processInput_caught:
  "readInputFilesAndConfigureRemappings fs pr st = (Inr True, st1) \<Longrightarrow>
   try_block env fs eng (emit (Engine Construct) st1) = (Inl f, st2) \<Longrightarrow>
   rendering env f = Some ev \<Longrightarrow>
   processInput env fs pr eng st = (Inr False, st2\<lparr>g_hasOutput := True, trace := trace st2 @ [ev]\<rparr>)"
  by (simp add: processInput_def handle_fault_rendering)

lemma processInput_loading_throws:
  "readInputFilesAndConfigureRemappings fs pr st = (Inl f, st1) \<Longrightarrow>
   processInput env fs pr eng st = (Inl (Thrown f), st1)"
  by (simp add: processInput_def)

lemma try_block_refused:
  "config_steps st = pre @ Call c # post \<Longrightarrow> \<forall>s \<in> set pre. accepted eng s \<Longrightarrow>
   on_call eng c = Some f \<Longrightarrow>
   try_block env fs eng st = (Inl f, emit (Engine c) (foldl step_effect st pre))"
  by (simp add: try_block_def exec_steps_refused)

lemma try_block_thrown:
  "config_steps st = pre @ Throw f # post \<Longrightarrow> \<forall>s \<in> set pre. accepted eng s \<Longrightarrow>
   try_block env fs eng st = (Inl f, foldl step_effect st pre)"
  by (simp add: try_block_def exec_steps_thrown)

lemma try_block_compile_throws:
  "\<forall>s \<in> set (config_steps st). accepted eng s \<Longrightarrow>
   run_compile env fs (compile eng)
     (emit (Engine Compile) (foldl step_effect st (config_steps st))) = (Inl f, st2) \<Longrightarrow>
   try_block env fs eng st = (Inl f, st2)"
  by (simp add: try_block_def exec_steps_accepted)

lemma allowed_try_block:
  "m_allowedDirectories (snd (try_block env fs eng st)) = m_allowedDirectories st"
proof -
  obtain o1 st1 where e: "exec_steps eng (config_steps st) st = (o1, st1)"
    by (cases "exec_steps eng (config_steps st) st")
  with exec_steps_frame [of eng "config_steps st" st]
  have a1: "m_allowedDirectories st1 = m_allowedDirectories st" by simp
  obtain o2 st2 where r: "run_compile env fs (compile eng) (emit (Engine Compile) st1) = (o2, st2)"
    by (cases "run_compile env fs (compile eng) (emit (Engine Compile) st1)")
  with run_compile_frame [of env fs "compile eng" "emit (Engine Compile) st1"]
  have a2: "m_allowedDirectories st2 = m_allowedDirectories st1" by (simp add: emit_def)
  from e r a1 a2 show ?thesis
    by (simp add: try_block_def foldl_printError split: option.splits sum.splits prod.splits)
qed

lemma allowed_handle_fault:
  "m_allowedDirectories (snd (handle_fault env f st)) = m_allowedDirectories st"
  by (cases f) (simp_all add: serr_def emit_def split: option.splits)

lemma allowed_processInput:
  "m_allowedDirectories (snd (processInput env fs pr eng st)) =
   m_allowedDirectories (snd (readInputFilesAndConfigureRemappings fs pr st))"
proof -
  obtain r st1 where l: "readInputFilesAndConfigureRemappings fs pr st = (r, st1)"
    by (cases "readInputFilesAndConfigureRemappings fs pr st")
  obtain o2 st2 where b: "try_block env fs eng (emit (Engine Construct) st1) = (o2, st2)"
    by (cases "try_block env fs eng (emit (Engine Construct) st1)")
  with allowed_try_block [of env fs eng "emit (Engine Construct) st1"]
  have "m_allowedDirectories st2 = m_allowedDirectories st1" by (simp add: emit_def)
  with l b show ?thesis
    by (simp add: processInput_def allowed_handle_fault split: sum.splits bool.splits)
qed

lemma loaded_steps:
  "config_steps (emit (Engine Construct) (loaded_state\<lparr>m_allowedDirectories := [''/w/'']\<rparr>)) =
     [Call (SetRemappings [])] @ Call (SetSources [(''a.sol'', ''contract C {}'')]) #
     [Call GenerateCode, Call GenerateAbi, Call WithOptimizations, Call (SetInputFile ''a.sol'')]"
  by (simp add: config_steps_def loaded_state_def initial_state_def emit_def count_def arg_names)

lemma written_serr [simp]: "written st (serr True t st) = [Out Cerr t]"
  by (simp add: serr_put)

lemma serr_explicit:
  "serr True t st = st\<lparr>g_hasOutput := True, trace := trace st @ [Out Cerr t]\<rparr>"
  by (simp add: serr_def emit_def)

lemma allowed_readInputFiles:
  "\<exists>extra. m_allowedDirectories (snd (readInputFilesAndConfigureRemappings fs pr st)) =
             m_allowedDirectories st @ extra \<and>
     (extra = [] \<or>
      (\<exists>tok r. m_args st g_argInputFile = Some tok \<and> CHR ''='' \<in> set tok \<and> pr tok = Some r \<and>
         extra = [remove_filename fs (tl (dropWhile (\<lambda>c. c \<noteq> CHR ''='') tok))]) \<or>
      (\<exists>tok contents cpath. m_args st g_argInputFile = Some tok \<and> CHR ''='' \<notin> set tok \<and>
         readFileAsString fs tok = Inr contents \<and> fs_canonical fs tok = Inr cpath \<and>
         map_of (m_sourceCodes (snd (readInputFilesAndConfigureRemappings fs pr st)))
           (generic_string fs tok) = Some contents \<and>
         extra = [remove_filename fs cpath]))"
proof (cases "m_args st g_argInputFile")
  case None
  then show ?thesis
    by (simp add: readInputFiles_absent serr_def emit_def)
next
  case (Some tok)
  show ?thesis
  proof (cases "CHR ''='' \<in> set tok")
    case True
    with Some show ?thesis
      by (cases "pr tok") (simp_all add: readInputFiles_remapping serr_def emit_def Let_def)
  next
    case False
    with Some show ?thesis
      by (simp add: readInputFiles_plain serr_def emit_def update_lookup
               split: sum.splits bool.splits)
  qed
qed

lemma allowed_remapping:
  "m_args st g_argInputFile = Some tok \<Longrightarrow> CHR ''='' \<in> set tok \<Longrightarrow> pr tok = Some r \<Longrightarrow>
   m_allowedDirectories (snd (readInputFilesAndConfigureRemappings fs pr st)) =
     m_allowedDirectories st @ [remove_filename fs (tl (dropWhile (\<lambda>c. c \<noteq> CHR ''='') tok))]"
  by (simp add: readInputFiles_remapping serr_def emit_def Let_def)

lemma allowed_plain:
  "m_args st g_argInputFile = Some tok \<Longrightarrow> CHR ''='' \<notin> set tok \<Longrightarrow>
   fs_exists fs tok = Inr True \<Longrightarrow> fs_is_regular_file fs tok = Inr True \<Longrightarrow>
   readFileAsString fs tok = Inr contents \<Longrightarrow> fs_canonical fs tok = Inr cpath \<Longrightarrow>
   m_allowedDirectories (snd (readInputFilesAndConfigureRemappings fs pr st)) =
     m_allowedDirectories st @ [remove_filename fs cpath] \<and>
   map_of (m_sourceCodes (snd (readInputFilesAndConfigureRemappings fs pr st)))
     (generic_string fs tok) = Some contents"
  by (simp add: readInputFiles_plain update_lookup)

lemma caught_refused:
  "readInputFilesAndConfigureRemappings fs pr st = (Inr True, st1) \<Longrightarrow>
   S = emit (Engine Construct) st1 \<Longrightarrow>
   config_steps S = pre @ Call c # post \<Longrightarrow> \<forall>s \<in> set pre. accepted eng s \<Longrightarrow>
   on_call eng c = Some f \<Longrightarrow> rendering env f = Some ev \<Longrightarrow>
   processInput env fs pr eng st =
     (Inr False,
      (emit (Engine c) (foldl step_effect S pre))
        \<lparr>g_hasOutput := True,
         trace := trace (emit (Engine c) (foldl step_effect S pre)) @ [ev]\<rparr>)"
  using processInput_caught [of fs pr st st1 env eng f _ ev]
    try_block_refused [of S pre c post eng f env fs]
  by simp

lemma caught_thrown:
  "readInputFilesAndConfigureRemappings fs pr st = (Inr True, st1) \<Longrightarrow>
   S = emit (Engine Construct) st1 \<Longrightarrow>
   config_steps S = pre @ Throw f # post \<Longrightarrow> \<forall>s \<in> set pre. accepted eng s \<Longrightarrow>
   rendering env f = Some ev \<Longrightarrow>
   processInput env fs pr eng st =
     (Inr False,
      (foldl step_effect S pre)
        \<lparr>g_hasOutput := True, trace := trace (foldl step_effect S pre) @ [ev]\<rparr>)"
  using processInput_caught [of fs pr st st1 env eng f _ ev]
    try_block_thrown [of S pre f post eng env fs]
  by simp

lemma caught_compile:
  "readInputFilesAndConfigureRemappings fs pr st = (Inr True, st1) \<Longrightarrow>
   S = emit (Engine Construct) st1 \<Longrightarrow>
   \<forall>s \<in> set (config_steps S). accepted eng s \<Longrightarrow>
   run_compile env fs (compile eng)
     (emit (Engine Compile) (foldl step_effect S (config_steps S))) = (Inl f, st2) \<Longrightarrow>
   rendering env f = Some ev \<Longrightarrow>
   processInput env fs pr eng st =
     (Inr False, st2\<lparr>g_hasOutput := True, trace := trace st2 @ [ev]\<rparr>)"
  using processInput_caught [of fs pr st st1 env eng f st2 ev]
    try_block_compile_throws [of S eng env fs f st2]
  by simp

lemma caught_raised:
  "readInputFilesAndConfigureRemappings fs pr st = (Inr True, st1) \<Longrightarrow>
   S = emit (Engine Construct) st1 \<Longrightarrow>
   \<forall>s \<in> set (config_steps S). accepted eng s \<Longrightarrow> compile eng = Raised f \<Longrightarrow>
   rendering env f = Some ev \<Longrightarrow>
   processInput env fs pr eng st =
     (Inr False,
      (emit (Engine Compile) (foldl step_effect S (config_steps S)))
        \<lparr>g_hasOutput := True,
         trace := trace (emit (Engine Compile) (foldl step_effect S (config_steps S))) @ [ev]\<rparr>)"
  using caught_compile [of fs pr st st1 S eng env f
      "emit (Engine Compile) (foldl step_effect S (config_steps S))" ev]
  by simp

lemma handle_fault_null:
  "fst (handle_fault env f st) = Inl a \<Longrightarrow>
   a = NullDereference \<and> (\<exists>e. f = Error DocstringParsingError e \<and> errinfo_comment e = None)"
  by (cases f) (auto split: if_splits option.splits)

lemma processInput_null:
  "readInputFilesAndConfigureRemappings fs pr st = (Inr True, st1) \<Longrightarrow>
   S = emit (Engine Construct) st1 \<Longrightarrow>
   fst (processInput env fs pr eng st) = Inl a \<Longrightarrow>
   a = NullDereference \<and>
   (\<exists>e st2. try_block env fs eng S = (Inl (Error DocstringParsingError e), st2) \<and>
            errinfo_comment e = None)"
proof -
  assume l: "readInputFilesAndConfigureRemappings fs pr st = (Inr True, st1)"
    and S: "S = emit (Engine Construct) st1"
    and p: "fst (processInput env fs pr eng st) = Inl a"
  obtain o2 st2 where b: "try_block env fs eng S = (o2, st2)"
    by (cases "try_block env fs eng S")
  show ?thesis
  proof (cases o2)
    case (Inr ok)
    with l S b p show ?thesis by (simp add: processInput_def)
  next
    case (Inl f)
    with l S b p have "fst (handle_fault env f st2) = Inl a"
      by (simp add: processInput_def)
    from handle_fault_null [OF this] Inl b show ?thesis by auto
  qed
qed

section \<open>Properties\<close>

subsection \<open>The output flag\<close>

text \<open>
  C1 (as amended). \<open>parseArguments\<close> resets \<open>g_hasOutput\<close> before anything else: its
  result does not depend on the old value, the flag is set afterwards exactly when
  \<open>parseArguments\<close> itself wrote to a stream, and it is unset whenever \<open>parseArguments\<close>
  returns true. From there on the flag is set by writes and by one more thing only: after
  \<open>processInput\<close> it is set exactly when it was set before, or something was written to a
  stream, or \<open>compile()\<close> was reached and reported that it compiled something; after
  \<open>outputCompilationResults\<close> exactly when it was set before or something was written.
  \<open>outputCompilationResults\<close> never throws; it writes the advisory exactly when compilation
  was successful and the flag is still unset after the contract loop, and never when it wrote
  anything to the content stream (a syntax tree or a document).
\<close>

theorem output_flag_tracks_writes:
  "parseArguments env argv (st\<lparr>g_hasOutput := b\<rparr>) = parseArguments env argv st
   \<and> follows False (st\<lparr>g_hasOutput := False\<rparr>) (snd (parseArguments env argv st))
   \<and> g_hasOutput (snd (parseArguments env argv st)) =
       (\<exists>e \<in> set (written st (snd (parseArguments env argv st))). is_write e)
   \<and> (fst (parseArguments env argv st) = Returned True \<longrightarrow>
        \<not> g_hasOutput (snd (parseArguments env argv st)))
   \<and> follows (run_reported env fs pr eng st) st (snd (processInput env fs pr eng st))
   \<and> (fst (exec_steps eng (config_steps st) st) = None \<and>
      fst (run_compile env fs (compile eng)
             (emit (Engine Compile) (snd (exec_steps eng (config_steps st) st)))) = Inr (s, True, errs)
      \<longrightarrow> g_hasOutput (snd (try_block env fs eng st)))
   \<and> (\<exists>st2 st'. astStage c st = Inr st2 \<and> outputCompilationResults c st = Inr st' \<and>
         follows False st st' \<and>
         ((Out Cerr advisory \<in> set (written st st')) =
            (compilationSuccessful c \<and> \<not> g_hasOutput (outputContracts c st2))) \<and>
         ((\<exists>t. Out Cout t \<in> set (written st st')) \<longrightarrow> Out Cerr advisory \<notin> set (written st st')))"
proof -
  have 1: "parseArguments env argv (st\<lparr>g_hasOutput := b\<rparr>) = parseArguments env argv st"
    by (rule parseArguments_reset)
  have 2: "follows False (st\<lparr>g_hasOutput := False\<rparr>) (snd (parseArguments env argv st))"
    by (rule follows_parseArguments)
  have 3: "g_hasOutput (snd (parseArguments env argv st)) =
       (\<exists>e \<in> set (written st (snd (parseArguments env argv st))). is_write e)"
    by (rule parseArguments_flag)
  have 4: "fst (parseArguments env argv st) = Returned True \<longrightarrow>
        \<not> g_hasOutput (snd (parseArguments env argv st))"
    by (auto simp: parseArguments_def Let_def split: sum.splits option.splits prod.splits if_splits)
  have 5: "follows (run_reported env fs pr eng st) st (snd (processInput env fs pr eng st))"
    by (rule follows_processInput)
  have 6: "fst (exec_steps eng (config_steps st) st) = None \<and>
      fst (run_compile env fs (compile eng)
             (emit (Engine Compile) (snd (exec_steps eng (config_steps st) st)))) = Inr (s, True, errs)
      \<longrightarrow> g_hasOutput (snd (try_block env fs eng st))"
  proof
    assume h: "fst (exec_steps eng (config_steps st) st) = None \<and>
      fst (run_compile env fs (compile eng)
             (emit (Engine Compile) (snd (exec_steps eng (config_steps st) st)))) = Inr (s, True, errs)"
    let ?st1 = "snd (exec_steps eng (config_steps st) st)"
    let ?st2 = "snd (run_compile env fs (compile eng) (emit (Engine Compile) ?st1))"
    from h have "exec_steps eng (config_steps st) st = (None, ?st1)"
      by (metis prod.collapse)
    moreover from h have "run_compile env fs (compile eng) (emit (Engine Compile) ?st1) = (Inr (s, True, errs), ?st2)"
      by (metis prod.collapse)
    ultimately show "g_hasOutput (snd (try_block env fs eng st))"
      by (rule didCompileSomething_sets_flag)
  qed
  from advisory_iff [of c st] follows_outputCompilationResults [of c st]
  have 7: "\<exists>st2 st'. astStage c st = Inr st2 \<and> outputCompilationResults c st = Inr st' \<and>
         follows False st st' \<and>
         ((Out Cerr advisory \<in> set (written st st')) =
            (compilationSuccessful c \<and> \<not> g_hasOutput (outputContracts c st2))) \<and>
         ((\<exists>t. Out Cout t \<in> set (written st st')) \<longrightarrow> Out Cerr advisory \<notin> set (written st st'))"
    by auto
  from 1 2 3 4 5 6 7 show ?thesis by blast
qed

theorem output_flag_tracks_writes_witness:
  "\<not> g_hasOutput (snd (parseArguments example_env [''solc'', ''a.sol''] (initial_state\<lparr>g_hasOutput := True\<rparr>)))
   \<and> g_hasOutput (snd (try_block example_env example_fs example_engine loaded_state))
   \<and> follows True (state_with_input ''a.sol'')
        (snd (processInput example_env example_fs rejecting_parser example_engine (state_with_input ''a.sol'')))
   \<and> (\<exists>st'. outputCompilationResults example_compiled loaded_state = Inr st' \<and>
             follows False loaded_state st' \<and>
             Out Cerr advisory \<in> set (written loaded_state st'))"
proof -
  have p: "fst (parseArguments example_env [''solc'', ''a.sol''] (initial_state\<lparr>g_hasOutput := True\<rparr>))
           = Returned True"
    by (simp add: parseArguments_def example_env_def initial_state_def count_def arg_names)
  have a: "fst (exec_steps example_engine (config_steps loaded_state) loaded_state) = None"
    by (simp add: example_steps)
  have b: "fst (run_compile example_env example_fs (compile example_engine)
             (emit (Engine Compile) (snd (exec_steps example_engine (config_steps loaded_state) loaded_state))))
           = Inr (True, True, [])"
    by (simp add: example_engine_def)
  have r: "run_reported example_env example_fs rejecting_parser example_engine (state_with_input ''a.sol'')"
    using loaded_example [of rejecting_parser]
    by (simp add: run_reported_def compile_reported_def state_with_input_def config_steps_def
          loaded_state_def initial_state_def example_engine_def count_def arg_names emit_def)
  note t0 = output_flag_tracks_writes [where env = example_env and argv = "[''solc'', ''a.sol'']"
      and st = "initial_state\<lparr>g_hasOutput := True\<rparr>"]
  from t0 p have 0: "\<not> g_hasOutput (snd (parseArguments example_env [''solc'', ''a.sol'']
      (initial_state\<lparr>g_hasOutput := True\<rparr>)))"
    by blast
  note t = output_flag_tracks_writes [where env = example_env
      and st = loaded_state and fs = example_fs
      and eng = example_engine and s = True and errs = "[]" and c = example_compiled]
  from t a b have 1: "g_hasOutput (snd (try_block example_env example_fs example_engine loaded_state))"
    by blast
  from output_flag_tracks_writes [where env = example_env and st = "state_with_input ''a.sol''"
      and fs = example_fs and pr = rejecting_parser and eng = example_engine] r
  have 2: "follows True (state_with_input ''a.sol'')
        (snd (processInput example_env example_fs rejecting_parser example_engine (state_with_input ''a.sol'')))"
    by simp
  from t obtain st2 st' where
    s2: "astStage example_compiled loaded_state = Inr st2" and
    o: "outputCompilationResults example_compiled loaded_state = Inr st'" and
    tr: "follows False loaded_state st'" and
    iff: "(Out Cerr advisory \<in> set (written loaded_state st')) =
            (compilationSuccessful example_compiled \<and> \<not> g_hasOutput (outputContracts example_compiled st2))"
    by blast
  from s2 have "st2 = loaded_state"
    by (simp add: astStage_put ast_events_def loaded_state_def initial_state_def count_def arg_names)
  then have "\<not> g_hasOutput (outputContracts example_compiled st2)"
    by (simp add: outputContracts_put contract_events_def natspec_events_def
          needsHumanTargetedStdout_def loaded_state_def initial_state_def count_def arg_names
          example_compiled_def)
  with iff have "Out Cerr advisory \<in> set (written loaded_state st')"
    by (simp add: example_compiled_def)
  with 0 1 2 o tr show ?thesis by blast
qed

text \<open>
  The claim as stated fails: one input file, no output option, and an engine that compiled
  something. Nothing is written to either stream during \<open>processInput\<close>, yet the flag is
  set afterwards.
\<close>

theorem flag_set_without_write_counterexample:
  "\<not> g_hasOutput (initial_state\<lparr>m_args := [g_argInputFile \<mapsto> ''a.sol'']\<rparr>)
   \<and> g_hasOutput (snd (processInput example_env example_fs rejecting_parser example_engine
                         (initial_state\<lparr>m_args := [g_argInputFile \<mapsto> ''a.sol'']\<rparr>)))
   \<and> filter is_write (trace (snd (processInput example_env example_fs rejecting_parser example_engine
                         (initial_state\<lparr>m_args := [g_argInputFile \<mapsto> ''a.sol'']\<rparr>)))) = []"
  by (simp add: processInput_def readInputFilesAndConfigureRemappings_def loadInputFile_def
        try_block_def config_steps_def example_fs_def example_engine_def initial_state_def
        absolute_def count_def arg_names emit_def)

subsection \<open>Contract banners\<close>

text \<open>
  C2 (as amended). In the loop over the contracts, the banner of a contract is written
  exactly when at least one of the options \<open>ast-json\<close>, \<open>userdoc\<close>, \<open>devdoc\<close> was
  requested; with none of them requested the loop writes no banner.
\<close>

theorem contract_banner_iff_any_kind:
  "contract \<in> set (contractNames c) \<Longrightarrow>
     (Out Cout (banner contract) \<in> set (written st (outputContracts c st))) =
     (count (m_args st) g_argAstJson \<noteq> 0 \<or> count (m_args st) g_argNatspecUser \<noteq> 0 \<or>
      count (m_args st) g_argNatspecDev \<noteq> 0)"
proof (cases "needsHumanTargetedStdout (m_args st)")
  case True
  assume "contract \<in> set (contractNames c)"
  moreover from True have "Out Cout (banner contract) \<in> set (contract_events c (m_args st) contract)"
    by (simp add: contract_events_def)
  ultimately have "Out Cout (banner contract) \<in> set (written st (outputContracts c st))"
    unfolding written_outputContracts by auto
  with True show ?thesis
    by (simp add: needsHumanTargetedStdout_iff)
next
  case False
  then have "written st (outputContracts c st) = []"
    unfolding written_outputContracts by (simp add: contract_events_quiet)
  with False show ?thesis
    by (simp add: needsHumanTargetedStdout_iff)
qed

theorem contract_banner_iff_any_kind_witness:
  "(Out Cout (banner ''C'') \<in>
      set (written (initial_state\<lparr>m_args := [g_argNatspecUser \<mapsto> []]\<rparr>)
             (outputContracts example_compiled (initial_state\<lparr>m_args := [g_argNatspecUser \<mapsto> []]\<rparr>))))
   \<and> ''C'' \<in> set (contractNames example_compiled)"
  using contract_banner_iff_any_kind [of "''C''" example_compiled
          "initial_state\<lparr>m_args := [g_argNatspecUser \<mapsto> []]\<rparr>"]
  by (simp add: example_compiled_def initial_state_def count_def)

text \<open>
  The claim as stated fails: with \<open>devdoc\<close> as the only requested kind, the banner of the
  contract is written before its developer documentation.
\<close>

theorem banner_with_one_kind_counterexample:
  "count [g_argNatspecDev \<mapsto> []] g_argNatspecDev = 1
   \<and> count [g_argNatspecDev \<mapsto> []] g_argNatspecUser = 0
   \<and> count [g_argNatspecDev \<mapsto> []] g_argAstJson = 0
   \<and> trace_of (outputCompilationResults example_compiled (initial_state\<lparr>m_args := [g_argNatspecDev \<mapsto> []]\<rparr>))
       = [Out Cout (banner ''C''), Out Cout (''Developer Documentation'' @ endl), Out Cout (''{dev}'' @ endl)]"
  by (simp add: count_def arg_names trace_of_def outputCompilationResults_def astStage_put
        ast_events_def outputContracts_put contract_events_def natspec_events_def
        needsHumanTargetedStdout_def example_compiled_def initial_state_def put_def)

subsection \<open>Faults of the configuration and invocation step\<close>

text \<open>
  C3 (as amended). Let input loading have succeeded, and let \<open>S\<close> be the state in which the
  \<open>try\<close> block of \<open>processInput\<close> starts. Whichever statement of the block raises the
  fault - a call on the engine that the engine refuses, after the statements before it have
  passed; a throw of the driver's own; or \<open>compile()\<close>, also after calls of the source
  reader - \<open>processInput\<close> returns false, in the state reached at the throw with the flag
  set and exactly one more entry in the trace: the rendering of the fault by its category. A
  compiler error goes to the formatter with the label \<open>Compiler error\<close>; an internal
  compiler error and an unimplemented feature are dumped under their own heading; a
  documentation parsing error that carries a comment is one prefixed line with the comment;
  any other \<open>Error\<close> goes to the formatter labelled with its type name; any other exception
  of the compiler is dumped with a generic heading; anything else gives the fixed unknown
  exception line, with the text of \<open>what()\<close> when there is one. No exception leaves
  \<open>processInput\<close> from the \<open>try\<close> block, and \<open>processInput\<close> returns unless the
  block raised a documentation parsing error without a comment; what happens then is not
  part of this statement. An exception thrown by input loading, which runs before the
  \<open>try\<close> block, does leave \<open>processInput\<close>.
\<close>

theorem faults_classified_at_driver_boundary:
  "(readInputFilesAndConfigureRemappings fs pr st = (Inr True, st1) \<and>
    S = emit (Engine Construct) st1 \<longrightarrow>
      (config_steps S = pre @ Call c # post \<and> (\<forall>s \<in> set pre. accepted eng s) \<and>
       on_call eng c = Some f \<and> rendering env f = Some ev \<longrightarrow>
         processInput env fs pr eng st =
           (Inr False,
            (emit (Engine c) (foldl step_effect S pre))
              \<lparr>g_hasOutput := True,
               trace := trace (emit (Engine c) (foldl step_effect S pre)) @ [ev]\<rparr>))
      \<and> (config_steps S = pre @ Throw f # post \<and> (\<forall>s \<in> set pre. accepted eng s) \<and>
         rendering env f = Some ev \<longrightarrow>
         processInput env fs pr eng st =
           (Inr False,
            (foldl step_effect S pre)
              \<lparr>g_hasOutput := True, trace := trace (foldl step_effect S pre) @ [ev]\<rparr>))
      \<and> ((\<forall>s \<in> set (config_steps S). accepted eng s) \<and>
         run_compile env fs (compile eng)
           (emit (Engine Compile) (foldl step_effect S (config_steps S))) = (Inl f, st2) \<and>
         rendering env f = Some ev \<longrightarrow>
         processInput env fs pr eng st =
           (Inr False, st2\<lparr>g_hasOutput := True, trace := trace st2 @ [ev]\<rparr>))
      \<and> ((\<forall>s \<in> set (config_steps S). accepted eng s) \<and> compile eng = Raised f \<and>
         rendering env f = Some ev \<longrightarrow>
         processInput env fs pr eng st =
           (Inr False,
            (emit (Engine Compile) (foldl step_effect S (config_steps S)))
              \<lparr>g_hasOutput := True,
               trace := trace (emit (Engine Compile) (foldl step_effect S (config_steps S))) @ [ev]\<rparr>))
      \<and> (\<forall>f'. fst (processInput env fs pr eng st) \<noteq> Inl (Thrown f'))
      \<and> (fst (processInput env fs pr eng st) = Inl a \<longrightarrow>
           (\<exists>e st'. try_block env fs eng S = (Inl (Error DocstringParsingError e), st') \<and>
                    errinfo_comment e = None)))
   \<and> (readInputFilesAndConfigureRemappings fs pr st = (Inl f0, st0) \<longrightarrow>
        processInput env fs pr eng st = (Inl (Thrown f0), st0))"
  using caught_refused [of fs pr st st1 S pre c post eng f env ev]
    caught_thrown [of fs pr st st1 S pre f post eng env ev]
    caught_compile [of fs pr st st1 S eng env f st2 ev]
    caught_raised [of fs pr st st1 S eng f env ev]
    processInput_not_thrown [of fs pr st st1 env eng]
    processInput_null [of fs pr st st1 S env eng a]
    processInput_loading_throws [of fs pr st f0 st0 env eng]
  by blast

theorem faults_classified_at_driver_boundary_witness:
  "processInput example_env example_fs rejecting_parser refusing_engine (state_with_input ''a.sol'') =
     (Inr False,
      loaded_state\<lparr>m_allowedDirectories := [''/w/''], g_hasOutput := True,
        trace := [Engine Construct, Engine (SetRemappings []),
                  Engine (SetSources [(''a.sol'', ''contract C {}'')]),
                  FormattedException
                    (CompilerError \<lparr>errinfo_comment = Some ''no sources'', detail = []\<rparr>)
                    ''Compiler error'']\<rparr>)
   \<and> processInput example_env example_fs rejecting_parser failing_engine (state_with_input ''a.sol'') =
     (Inr False,
      loaded_state\<lparr>m_allowedDirectories := [''/w/''], g_hasOutput := True,
        trace := [Engine Construct, Engine (SetRemappings []),
                  Engine (SetSources [(''a.sol'', ''contract C {}'')]),
                  Engine GenerateCode, Engine GenerateAbi, Engine WithOptimizations,
                  Engine (SetInputFile ''a.sol''), Engine Compile,
                  Out Cerr (''Internal compiler error during compilation:'' @ endl @
                            ''diagnostic information'')]\<rparr>)"
proof -
  let ?st = "state_with_input ''a.sol''"
  let ?st1 = "loaded_state\<lparr>m_allowedDirectories := [''/w/'']\<rparr>"
  let ?S = "emit (Engine Construct) ?st1"
  let ?pre = "[Call (SetRemappings [])]"
  let ?c = "SetSources [(''a.sol'', ''contract C {}'')]"
  let ?post = "[Call GenerateCode, Call GenerateAbi, Call WithOptimizations, Call (SetInputFile ''a.sol'')]"
  let ?f = "CompilerError \<lparr>errinfo_comment = Some ''no sources'', detail = []\<rparr>"
  let ?ev = "FormattedException ?f ''Compiler error''"
  let ?g = "InternalCompilerError \<lparr>errinfo_comment = Some ''assertion'', detail = []\<rparr>"
  let ?ew = "Out Cerr (''Internal compiler error during compilation:'' @ endl @ ''diagnostic information'')"
  have l: "readInputFilesAndConfigureRemappings example_fs rejecting_parser ?st = (Inr True, ?st1)"
    using loaded_example [of rejecting_parser] by (simp add: state_with_input_def)
  have steps: "config_steps ?S = ?pre @ Call ?c # ?post"
    by (rule loaded_steps)
  have acc: "\<forall>s \<in> set ?pre. accepted refusing_engine s"
    by (simp add: refusing_engine_def)
  have oc: "on_call refusing_engine ?c = Some ?f"
    by (simp add: refusing_engine_def)
  have rd: "rendering example_env ?f = Some ?ev"
    by (simp add: rendering_def)
  from faults_classified_at_driver_boundary [where fs = example_fs and pr = rejecting_parser
      and st = ?st and ?st1.0 = ?st1 and S = ?S and env = example_env and eng = refusing_engine
      and pre = ?pre and c = ?c and post = ?post and f = ?f and ev = ?ev
      and ?st2.0 = ?st1 and ?f0.0 = UnknownFault and ?st0.0 = ?st1
      and a = NullDereference]
    l steps acc oc rd
  have "processInput example_env example_fs rejecting_parser refusing_engine ?st =
     (Inr False,
      (emit (Engine ?c) (foldl step_effect ?S ?pre))
         \<lparr>g_hasOutput := True,
          trace := trace (emit (Engine ?c) (foldl step_effect ?S ?pre)) @ [?ev]\<rparr>)"
    by blast
  then have a: "processInput example_env example_fs rejecting_parser refusing_engine ?st =
     (Inr False,
      loaded_state\<lparr>m_allowedDirectories := [''/w/''], g_hasOutput := True,
        trace := [Engine Construct, Engine (SetRemappings []),
                  Engine (SetSources [(''a.sol'', ''contract C {}'')]), ?ev]\<rparr>)"
    by (simp add: emit_def loaded_state_def initial_state_def)
  have acc': "\<forall>s \<in> set (config_steps ?S). accepted failing_engine s"
    unfolding loaded_steps by (simp add: failing_engine_def)
  have cr: "compile failing_engine = Raised ?g"
    by (simp add: failing_engine_def)
  have rd': "rendering example_env ?g = Some ?ew"
    by (simp add: rendering_def example_env_def)
  from faults_classified_at_driver_boundary [where fs = example_fs and pr = rejecting_parser
      and st = ?st and ?st1.0 = ?st1 and S = ?S and env = example_env and eng = failing_engine
      and pre = ?pre and c = ?c and post = ?post and f = ?g and ev = ?ew
      and ?st2.0 = ?st1 and ?f0.0 = UnknownFault and ?st0.0 = ?st1
      and a = NullDereference]
    l acc' cr rd'
  have "processInput example_env example_fs rejecting_parser failing_engine ?st =
     (Inr False,
      (emit (Engine Compile) (foldl step_effect ?S (config_steps ?S)))
         \<lparr>g_hasOutput := True,
          trace := trace (emit (Engine Compile) (foldl step_effect ?S (config_steps ?S))) @ [?ew]\<rparr>)"
    by blast
  then have b: "processInput example_env example_fs rejecting_parser failing_engine ?st =
     (Inr False,
      loaded_state\<lparr>m_allowedDirectories := [''/w/''], g_hasOutput := True,
        trace := [Engine Construct, Engine (SetRemappings []),
                  Engine (SetSources [(''a.sol'', ''contract C {}'')]),
                  Engine GenerateCode, Engine GenerateAbi, Engine WithOptimizations,
                  Engine (SetInputFile ''a.sol''), Engine Compile, ?ew]\<rparr>)"
    unfolding loaded_steps
    by (simp add: emit_def loaded_state_def initial_state_def)
  from a b show ?thesis by blast
qed

text \<open>
  The claim as stated fails twice. With a file system whose existence test throws, the
  exception leaves \<open>processInput\<close>: input loading is outside the \<open>try\<close> block. And when
  \<open>compile()\<close> throws a documentation parsing error with no comment attached, the catch
  clause writes the prefix and then reads through a null pointer: \<open>processInput\<close> does not
  return false.
\<close>

theorem fault_leaves_processInput_counterexample:
  "processInput example_env broken_fs rejecting_parser example_engine (state_with_input ''a.sol'') =
     (Inl (Thrown UnknownFault), state_with_input ''a.sol'')
   \<and> processInput example_env example_fs rejecting_parser uncommented_engine (state_with_input ''a.sol'') =
     (Inl NullDereference,
      loaded_state\<lparr>m_allowedDirectories := [''/w/''], g_hasOutput := True,
        trace := [Engine Construct, Engine (SetRemappings []),
                  Engine (SetSources [(''a.sol'', ''contract C {}'')]),
                  Engine GenerateCode, Engine GenerateAbi, Engine WithOptimizations,
                  Engine (SetInputFile ''a.sol''), Engine Compile, SourceReader ''source'' ''a.sol'',
                  Out Cerr ''Documentation parsing error: '']\<rparr>)"
proof -
  have a: "processInput example_env broken_fs rejecting_parser example_engine (state_with_input ''a.sol'') =
     (Inl (Thrown UnknownFault), state_with_input ''a.sol'')"
    by (simp add: processInput_def readInputFiles_plain broken_fs_def)
  have l: "readInputFilesAndConfigureRemappings example_fs rejecting_parser (state_with_input ''a.sol'') =
      (Inr True, loaded_state\<lparr>m_allowedDirectories := [''/w/'']\<rparr>)"
    using loaded_example [of rejecting_parser] by (simp add: state_with_input_def)
  have b: "processInput example_env example_fs rejecting_parser uncommented_engine (state_with_input ''a.sol'') =
     (Inl NullDereference,
      loaded_state\<lparr>m_allowedDirectories := [''/w/''], g_hasOutput := True,
        trace := [Engine Construct, Engine (SetRemappings []),
                  Engine (SetSources [(''a.sol'', ''contract C {}'')]),
                  Engine GenerateCode, Engine GenerateAbi, Engine WithOptimizations,
                  Engine (SetInputFile ''a.sol''), Engine Compile, SourceReader ''source'' ''a.sol'',
                  Out Cerr ''Documentation parsing error: '']\<rparr>)"
  proof -
    let ?S = "emit (Engine Construct) (loaded_state\<lparr>m_allowedDirectories := [''/w/'']\<rparr>)"
    let ?f = "Error DocstringParsingError \<lparr>errinfo_comment = None, detail = []\<rparr>"
    let ?X = "loaded_state\<lparr>m_allowedDirectories := [''/w/''],
          trace := [Engine Construct, Engine (SetRemappings []),
                    Engine (SetSources [(''a.sol'', ''contract C {}'')]),
                    Engine GenerateCode, Engine GenerateAbi, Engine WithOptimizations,
                    Engine (SetInputFile ''a.sol''), Engine Compile, SourceReader ''source'' ''a.sol'']\<rparr>"
    have acc: "\<forall>s \<in> set (config_steps ?S). accepted uncommented_engine s"
      unfolding loaded_steps by (simp add: uncommented_engine_def)
    have rc: "run_compile example_env example_fs (compile uncommented_engine)
                (emit (Engine Compile) (foldl step_effect ?S (config_steps ?S))) = (Inl ?f, ?X)"
      unfolding loaded_steps
      by (simp add: uncommented_engine_def fileReader_def fileReader_try_def example_env_def
            example_fs_def absolute_def emit_def loaded_state_def initial_state_def)
    from try_block_compile_throws [OF acc rc]
    have tb: "try_block example_env example_fs uncommented_engine ?S = (Inl ?f, ?X)" .
    have "processInput example_env example_fs rejecting_parser uncommented_engine (state_with_input ''a.sol'')
            = handle_fault example_env ?f ?X"
      by (simp add: processInput_def l tb)
    then show ?thesis
      by (simp add: serr_def emit_def loaded_state_def initial_state_def)
  qed
  from a b show ?thesis by blast
qed

subsection \<open>The source reader\<close>



subsection \<open>Remapping or path\<close>

text \<open>
  C5. For the positional token held by the options: without \<open>=\<close> the token is a path, the
  remapping parser has no influence on the outcome, no remapping is recorded, and the outcome
  is the one of the file checks: for a missing file, false is returned, the flag is set and
  the one entry added to the trace is the not found line on the diagnostic stream; for a
  file that is not regular, the same with the not a valid file line; otherwise the content is
  loaded under the token. With \<open>=\<close> the parser decides: if it rejects the token, false is
  returned, the flag is set and the one entry added to the trace is the invalid remapping
  line on the diagnostic stream; if it accepts, the remapping is appended. In either case the
  source mapping is left as it was and the disk is not consulted, so the token is never read
  as a file. The outcome is a function of the token, the parser and the file system.
\<close>

theorem token_with_equals_is_remapping_else_path:
  "m_args st g_argInputFile = Some tok \<Longrightarrow>
   (CHR ''='' \<notin> set tok \<longrightarrow>
      readInputFilesAndConfigureRemappings fs pr st = readInputFilesAndConfigureRemappings fs pr' st \<and>
      m_remappings (snd (readInputFilesAndConfigureRemappings fs pr st)) = m_remappings st \<and>
      (fs_exists fs tok = Inr False \<longrightarrow>
         readInputFilesAndConfigureRemappings fs pr st =
           (Inr False,
            st\<lparr>g_hasOutput := True,
               trace := trace st @ [Out Cerr (path_insert tok @ '' is not found.'' @ endl)]\<rparr>) \<and>
         written st (snd (readInputFilesAndConfigureRemappings fs pr st)) =
           [Out Cerr (path_insert tok @ '' is not found.'' @ endl)]) \<and>
      (fs_exists fs tok = Inr True \<and> fs_is_regular_file fs tok = Inr False \<longrightarrow>
         readInputFilesAndConfigureRemappings fs pr st =
           (Inr False,
            st\<lparr>g_hasOutput := True,
               trace := trace st @ [Out Cerr (path_insert tok @ '' is not a valid file.'' @ endl)]\<rparr>) \<and>
         written st (snd (readInputFilesAndConfigureRemappings fs pr st)) =
           [Out Cerr (path_insert tok @ '' is not a valid file.'' @ endl)]) \<and>
      (fs_exists fs tok = Inr True \<and> fs_is_regular_file fs tok = Inr True \<and>
       readFileAsString fs tok = Inr contents \<longrightarrow>
         m_sourceCodes (snd (readInputFilesAndConfigureRemappings fs pr st)) =
           AList.update (generic_string fs tok) contents (m_sourceCodes st)))
   \<and> (CHR ''='' \<in> set tok \<and> pr tok = None \<longrightarrow>
        readInputFilesAndConfigureRemappings fs pr st =
          (Inr False,
           st\<lparr>g_hasOutput := True,
              trace := trace st @
                [Out Cerr (''Invalid remapping: '' @ dquote @ tok @ dquote @ ''.'' @ endl)]\<rparr>) \<and>
        written st (snd (readInputFilesAndConfigureRemappings fs pr st)) =
          [Out Cerr (''Invalid remapping: '' @ dquote @ tok @ dquote @ ''.'' @ endl)])
   \<and> (CHR ''='' \<in> set tok \<and> pr tok = Some r \<longrightarrow>
        m_remappings (snd (readInputFilesAndConfigureRemappings fs pr st)) = m_remappings st @ [r])
   \<and> (CHR ''='' \<in> set tok \<longrightarrow>
        m_sourceCodes (snd (readInputFilesAndConfigureRemappings fs pr st)) = m_sourceCodes st \<and>
        (remove_filename fs' = remove_filename fs \<longrightarrow>
           readInputFilesAndConfigureRemappings fs' pr st = readInputFilesAndConfigureRemappings fs pr st))"
proof -
  assume tok: "m_args st g_argInputFile = Some tok"
  have 1: "CHR ''='' \<notin> set tok \<longrightarrow>
      readInputFilesAndConfigureRemappings fs pr st = readInputFilesAndConfigureRemappings fs pr' st"
    using tok by (simp add: readInputFiles_plain)
  have 2: "CHR ''='' \<notin> set tok \<longrightarrow>
      m_remappings (snd (readInputFilesAndConfigureRemappings fs pr st)) = m_remappings st"
    using tok by (simp add: readInputFiles_plain serr_def emit_def split: sum.splits bool.splits)
  have 3: "CHR ''='' \<notin> set tok \<longrightarrow> fs_exists fs tok = Inr False \<longrightarrow>
         readInputFilesAndConfigureRemappings fs pr st =
           (Inr False,
            st\<lparr>g_hasOutput := True,
               trace := trace st @ [Out Cerr (path_insert tok @ '' is not found.'' @ endl)]\<rparr>) \<and>
         written st (snd (readInputFilesAndConfigureRemappings fs pr st)) =
           [Out Cerr (path_insert tok @ '' is not found.'' @ endl)]"
    using tok by (simp add: readInputFiles_plain serr_explicit [symmetric])
  have 4: "CHR ''='' \<notin> set tok \<longrightarrow>
       fs_exists fs tok = Inr True \<and> fs_is_regular_file fs tok = Inr False \<longrightarrow>
         readInputFilesAndConfigureRemappings fs pr st =
           (Inr False,
            st\<lparr>g_hasOutput := True,
               trace := trace st @ [Out Cerr (path_insert tok @ '' is not a valid file.'' @ endl)]\<rparr>) \<and>
         written st (snd (readInputFilesAndConfigureRemappings fs pr st)) =
           [Out Cerr (path_insert tok @ '' is not a valid file.'' @ endl)]"
    using tok by (simp add: readInputFiles_plain serr_explicit [symmetric])
  have 5: "CHR ''='' \<notin> set tok \<longrightarrow>
       fs_exists fs tok = Inr True \<and> fs_is_regular_file fs tok = Inr True \<and>
       readFileAsString fs tok = Inr contents \<longrightarrow>
         m_sourceCodes (snd (readInputFilesAndConfigureRemappings fs pr st)) =
           AList.update (generic_string fs tok) contents (m_sourceCodes st)"
    using tok by (simp add: readInputFiles_plain split: sum.splits)
  have 6: "CHR ''='' \<in> set tok \<and> pr tok = None \<longrightarrow>
        readInputFilesAndConfigureRemappings fs pr st =
          (Inr False,
           st\<lparr>g_hasOutput := True,
              trace := trace st @
                [Out Cerr (''Invalid remapping: '' @ dquote @ tok @ dquote @ ''.'' @ endl)]\<rparr>) \<and>
        written st (snd (readInputFilesAndConfigureRemappings fs pr st)) =
          [Out Cerr (''Invalid remapping: '' @ dquote @ tok @ dquote @ ''.'' @ endl)]"
    using tok by (simp add: readInputFiles_remapping serr_explicit [symmetric])
  have 7: "CHR ''='' \<in> set tok \<longrightarrow>
        m_sourceCodes (snd (readInputFilesAndConfigureRemappings fs pr st)) = m_sourceCodes st"
    using tok by (simp add: readInputFiles_remapping serr_def emit_def Let_def split: option.splits)
  have 8: "CHR ''='' \<in> set tok \<longrightarrow> remove_filename fs' = remove_filename fs \<longrightarrow>
           readInputFilesAndConfigureRemappings fs' pr st = readInputFilesAndConfigureRemappings fs pr st"
    using tok by (simp add: readInputFiles_remapping split: option.splits)
  have 9: "CHR ''='' \<in> set tok \<and> pr tok = Some r \<longrightarrow>
        m_remappings (snd (readInputFilesAndConfigureRemappings fs pr st)) = m_remappings st @ [r]"
    using tok by (simp add: readInputFiles_remapping serr_def emit_def Let_def)
  from 1 2 3 4 5 6 7 8 9 show ?thesis by blast
qed

theorem token_with_equals_is_remapping_else_path_witness:
  "readInputFilesAndConfigureRemappings example_fs rejecting_parser (state_with_input ''=x'') =
     (Inr False,
      (state_with_input ''=x'')
        \<lparr>g_hasOutput := True,
         trace := [Out Cerr (''Invalid remapping: '' @ dquote @ ''=x'' @ dquote @ ''.'' @ endl)]\<rparr>)
   \<and> readInputFilesAndConfigureRemappings example_fs rejecting_parser (state_with_input ''b.sol'') =
     (Inr False,
      (state_with_input ''b.sol'')
        \<lparr>g_hasOutput := True,
         trace := [Out Cerr (path_insert ''b.sol'' @ '' is not found.'' @ endl)]\<rparr>)
   \<and> written (state_with_input ''dir'')
        (snd (readInputFilesAndConfigureRemappings example_fs rejecting_parser (state_with_input ''dir''))) =
       [Out Cerr (path_insert ''dir'' @ '' is not a valid file.'' @ endl)]
   \<and> m_sourceCodes (snd (readInputFilesAndConfigureRemappings example_fs rejecting_parser
                           (state_with_input ''a.sol''))) = [(''a.sol'', ''contract C {}'')]
   \<and> m_remappings (snd (readInputFilesAndConfigureRemappings example_fs rejecting_parser
                           (state_with_input ''a.sol''))) = []
   \<and> m_remappings (snd (readInputFilesAndConfigureRemappings example_fs parseRemapping_spec
                           (state_with_input ''ctxA:lib=./vendor''))) =
       [\<lparr>context = ''ctxA'', prefix = ''lib'', target = ''./vendor''\<rparr>]"
proof -
  note t = token_with_equals_is_remapping_else_path
  have fsb: "fs_exists example_fs ''b.sol'' = Inr False"
    by (simp add: example_fs_def absolute_def)
  have fsd: "fs_exists example_fs ''dir'' = Inr True" "fs_is_regular_file example_fs ''dir'' = Inr False"
    by (simp_all add: example_fs_def absolute_def)
  have fsa: "fs_exists example_fs ''a.sol'' = Inr True" "fs_is_regular_file example_fs ''a.sol'' = Inr True"
    "readFileAsString example_fs ''a.sol'' = Inr ''contract C {}''"
    "generic_string example_fs ''a.sol'' = ''a.sol''"
    by (simp_all add: example_fs_def absolute_def)
  have a: "readInputFilesAndConfigureRemappings example_fs rejecting_parser (state_with_input ''=x'') =
     (Inr False,
      (state_with_input ''=x'')
        \<lparr>g_hasOutput := True,
         trace := [Out Cerr (''Invalid remapping: '' @ dquote @ ''=x'' @ dquote @ ''.'' @ endl)]\<rparr>)"
    using t [where st = "state_with_input ''=x''"
        and tok = "''=x''" and fs = example_fs and pr = rejecting_parser and pr' = rejecting_parser
        and fs' = example_fs]
    by (simp add: rejecting_parser_def)
  have b: "readInputFilesAndConfigureRemappings example_fs rejecting_parser (state_with_input ''b.sol'') =
     (Inr False,
      (state_with_input ''b.sol'')
        \<lparr>g_hasOutput := True,
         trace := [Out Cerr (path_insert ''b.sol'' @ '' is not found.'' @ endl)]\<rparr>)"
    using t [where st = "state_with_input ''b.sol''"
        and tok = "''b.sol''" and fs = example_fs and pr = rejecting_parser and pr' = rejecting_parser
        and fs' = example_fs] fsb
    by simp
  have c: "written (state_with_input ''dir'')
        (snd (readInputFilesAndConfigureRemappings example_fs rejecting_parser (state_with_input ''dir''))) =
       [Out Cerr (path_insert ''dir'' @ '' is not a valid file.'' @ endl)]"
    using t [where st = "state_with_input ''dir''"
        and tok = "''dir''" and fs = example_fs and pr = rejecting_parser and pr' = rejecting_parser
        and fs' = example_fs] fsd
    by (simp add: written_def)
  have d: "m_sourceCodes (snd (readInputFilesAndConfigureRemappings example_fs rejecting_parser
                           (state_with_input ''a.sol''))) = [(''a.sol'', ''contract C {}'')]
   \<and> m_remappings (snd (readInputFilesAndConfigureRemappings example_fs rejecting_parser
                           (state_with_input ''a.sol''))) = []"
    using t [where st = "state_with_input ''a.sol''"
        and tok = "''a.sol''" and fs = example_fs and pr = rejecting_parser and pr' = rejecting_parser
        and fs' = example_fs
        and contents = "''contract C {}''"] fsa
    by simp
  have e: "m_remappings (snd (readInputFilesAndConfigureRemappings example_fs parseRemapping_spec
                           (state_with_input ''ctxA:lib=./vendor''))) =
       [\<lparr>context = ''ctxA'', prefix = ''lib'', target = ''./vendor''\<rparr>]"
    using t [where st = "state_with_input ''ctxA:lib=./vendor''"
        and tok = "''ctxA:lib=./vendor''" and fs = example_fs and pr = parseRemapping_spec and pr' = rejecting_parser
        and fs' = example_fs
        and r = "\<lparr>context = ''ctxA'', prefix = ''lib'', target = ''./vendor''\<rparr>"]
    by (simp add: parseRemapping_spec_def)
  from a b c d e show ?thesis by blast
qed

subsection \<open>Mutually exclusive artifact options\<close>

text \<open>
  C6. When the options were parsed and both \<open>tvm-abi\<close> and \<open>tvm\<close> are present,
  \<open>parseArguments\<close> returns false, and the only entry it adds to the trace is the line
  that names both options as mutually exclusive: there is no call on the engine and no call
  of the source reader, and the source mapping is left alone. The engine is constructed
  later, in \<open>processInput\<close>.
\<close>

theorem both_artifact_flags_rejected:
  "cmdLineParser_run env argv = Inr opts \<Longrightarrow>
   po_store opts (m_args st) = (None, m) \<Longrightarrow>
   count m g_argTvmABI \<noteq> 0 \<Longrightarrow> count m g_argTvm \<noteq> 0 \<Longrightarrow>
   parseArguments env argv st =
     (Returned False, serr True mutually_exclusive (st\<lparr>g_hasOutput := False, m_args := m\<rparr>))
   \<and> mutually_exclusive = ''Option tvm-abi and tvm are mutually exclusive.'' @ endl
   \<and> written st (snd (parseArguments env argv st)) = [Out Cerr mutually_exclusive]
   \<and> filter is_engine (trace (snd (parseArguments env argv st))) = filter is_engine (trace st)
   \<and> m_sourceCodes (snd (parseArguments env argv st)) = m_sourceCodes st"
  by (simp add: parseArguments_def mutually_exclusive_def arg_names serr_def emit_def written_def)

theorem both_artifact_flags_rejected_witness:
  "parseArguments both_artifacts_env [''solc'', ''--tvm-abi'', ''--tvm'', ''a.sol''] initial_state =
     (Returned False,
      initial_state\<lparr>g_hasOutput := True,
        m_args := [g_argTvmABI \<mapsto> [], g_argTvm \<mapsto> [], g_argInputFile \<mapsto> ''a.sol''],
        trace := [Out Cerr (''Option tvm-abi and tvm are mutually exclusive.'' @ endl)]\<rparr>)"
proof -
  let ?m = "[g_argTvmABI \<mapsto> [], g_argTvm \<mapsto> [], g_argInputFile \<mapsto> ''a.sol'']"
  have r: "cmdLineParser_run both_artifacts_env [''solc'', ''--tvm-abi'', ''--tvm'', ''a.sol''] =
        Inr [(g_argTvmABI, []), (g_argTvm, []), (g_argInputFile, ''a.sol'')]"
    by (simp add: both_artifacts_env_def)
  have s: "po_store [(g_argTvmABI, []), (g_argTvm, []), (g_argInputFile, ''a.sol'')] (m_args initial_state)
        = (None, ?m)"
    by (simp add: initial_state_def arg_names)
  have c: "count ?m g_argTvmABI \<noteq> 0" "count ?m g_argTvm \<noteq> 0"
    by (simp_all add: count_def arg_names)
  from both_artifact_flags_rejected [OF r s c]
  show ?thesis
    by (simp add: serr_def emit_def initial_state_def)
qed

subsection \<open>Syntax trees\<close>

text \<open>
  C7 (as amended). \<open>outputCompilationResults\<close> first writes, for \<open>ast-json\<close> and then for
  \<open>ast-compact-json\<close>, each only if requested: the title, and then for every unit of the
  source mapping, in the order of the mapping, the banner of the unit followed by its
  serialized tree. This does not depend on the success of the compilation. If the compilation
  was not successful, the halt notice follows at once and nothing else is written. With both
  options requested every unit is written twice.
\<close>

theorem syntax_trees_per_requested_option:
  "\<exists>st' rest.
     outputCompilationResults c st = Inr st' \<and>
     written st st' =
       ast_events c st g_argAstJson ''JSON AST:'' @
       ast_events c st g_argAstCompactJson ''JSON AST (compact format):'' @ rest \<and>
     (\<not> compilationSuccessful c \<longrightarrow> rest = [Out Cerr halt_notice])"
  by (simp add: outputCompilationResults_put)

theorem syntax_trees_per_requested_option_witness:
  "\<exists>st' rest.
     outputCompilationResults (example_compiled\<lparr>compilationSuccessful := False\<rparr>)
       (initial_state\<lparr>m_args := [g_argAstCompactJson \<mapsto> []], m_sourceCodes := [(''a.sol'', ''contract C {}'')]\<rparr>)
       = Inr st' \<and>
     written (initial_state\<lparr>m_args := [g_argAstCompactJson \<mapsto> []], m_sourceCodes := [(''a.sol'', ''contract C {}'')]\<rparr>) st' =
       [] @ [Out Cout (''JSON AST (compact format):'' @ endl @ endl), Out Cout (banner ''a.sol''), Out Cout ''{}''] @ rest \<and>
     rest = [Out Cerr halt_notice]"
  using syntax_trees_per_requested_option [of "example_compiled\<lparr>compilationSuccessful := False\<rparr>"
          "initial_state\<lparr>m_args := [g_argAstCompactJson \<mapsto> []], m_sourceCodes := [(''a.sol'', ''contract C {}'')]\<rparr>"]
  by (simp add: ast_events_def count_def arg_names example_compiled_def initial_state_def)

text \<open>
  The claim as stated fails: with both syntax-tree options requested, the banner of the one
  source unit is written twice.
\<close>

theorem syntax_trees_twice_counterexample:
  "count_list
     (trace_of (outputCompilationResults example_compiled
        (initial_state\<lparr>m_args := [g_argAstJson \<mapsto> [], g_argAstCompactJson \<mapsto> []],
                        m_sourceCodes := [(''a.sol'', ''contract C {}'')]\<rparr>)))
     (Out Cout (banner ''a.sol'')) = 2"
  by (simp add: outputCompilationResults_put trace_of_def ast_events_def count_def arg_names
        contract_events_def natspec_events_def needsHumanTargetedStdout_def
        example_compiled_def initial_state_def banner_def endl_def)

subsection \<open>Allowed directories\<close>

text \<open>
  C8 (as amended). Input loading appends to \<open>m_allowedDirectories\<close> in two cases and in no
  other: for a token that parses as a remapping it appends the text after the first \<open>=\<close>
  of the token with the file name removed; for a plain token whose file exists, is regular and
  was read into the source mapping, it appends the canonical path of the file with the file
  name removed. Nothing else writes the list: the rest of \<open>processInput\<close>, the source
  reader, argument parsing and the output of results leave it as it is.
\<close>

theorem allowed_directories_written_by_loading_only:
  "(m_args st g_argInputFile = Some tok \<and> CHR ''='' \<in> set tok \<and> pr tok = Some r \<longrightarrow>
      m_allowedDirectories (snd (readInputFilesAndConfigureRemappings fs pr st)) =
        m_allowedDirectories st @ [remove_filename fs (tl (dropWhile (\<lambda>c. c \<noteq> CHR ''='') tok))])
   \<and> (m_args st g_argInputFile = Some tok \<and> CHR ''='' \<notin> set tok \<and>
      fs_exists fs tok = Inr True \<and> fs_is_regular_file fs tok = Inr True \<and>
      readFileAsString fs tok = Inr contents \<and> fs_canonical fs tok = Inr cpath \<longrightarrow>
      m_allowedDirectories (snd (readInputFilesAndConfigureRemappings fs pr st)) =
        m_allowedDirectories st @ [remove_filename fs cpath] \<and>
      map_of (m_sourceCodes (snd (readInputFilesAndConfigureRemappings fs pr st)))
        (generic_string fs tok) = Some contents)
   \<and> (\<exists>extra. m_allowedDirectories (snd (readInputFilesAndConfigureRemappings fs pr st)) =
             m_allowedDirectories st @ extra \<and>
     (extra = [] \<or>
      (\<exists>tok r. m_args st g_argInputFile = Some tok \<and> CHR ''='' \<in> set tok \<and> pr tok = Some r \<and>
         extra = [remove_filename fs (tl (dropWhile (\<lambda>c. c \<noteq> CHR ''='') tok))]) \<or>
      (\<exists>tok contents cpath. m_args st g_argInputFile = Some tok \<and> CHR ''='' \<notin> set tok \<and>
         readFileAsString fs tok = Inr contents \<and> fs_canonical fs tok = Inr cpath \<and>
         map_of (m_sourceCodes (snd (readInputFilesAndConfigureRemappings fs pr st)))
           (generic_string fs tok) = Some contents \<and>
         extra = [remove_filename fs cpath])))
   \<and> m_allowedDirectories (snd (processInput env fs pr eng st)) =
       m_allowedDirectories (snd (readInputFilesAndConfigureRemappings fs pr st))
   \<and> m_allowedDirectories (snd (fileReader env fs kind path st)) = m_allowedDirectories st
   \<and> m_allowedDirectories (snd (parseArguments env argv st)) = m_allowedDirectories st
   \<and> (outputCompilationResults c st = Inr st' \<longrightarrow> m_allowedDirectories st' = m_allowedDirectories st)"
  using allowed_remapping [of st tok pr r fs] allowed_plain [of st tok fs contents cpath pr]
    allowed_readInputFiles [of fs pr st] allowed_processInput [of env fs pr eng st]
    fileReader_frame(5) [of env fs kind path st] allowed_parseArguments [of env argv st]
    allowed_outputCompilationResults [of c st st']
  by blast

theorem allowed_directories_written_by_loading_only_witness:
  "m_allowedDirectories (snd (readInputFilesAndConfigureRemappings example_fs parseRemapping_spec
      (state_with_input ''ctxA:lib=./vendor''))) = [''./'']
   \<and> m_allowedDirectories (snd (readInputFilesAndConfigureRemappings example_fs rejecting_parser
      (state_with_input ''a.sol''))) = [''/w/'']
   \<and> m_allowedDirectories (snd (processInput example_env example_fs rejecting_parser example_engine
      (state_with_input ''a.sol''))) = [''/w/'']
   \<and> (\<exists>st'. outputCompilationResults example_compiled loaded_state = Inr st' \<and>
             m_allowedDirectories st' = [])"
proof -
  note t = allowed_directories_written_by_loading_only
  have fsa: "fs_exists example_fs ''a.sol'' = Inr True" "fs_is_regular_file example_fs ''a.sol'' = Inr True"
    "readFileAsString example_fs ''a.sol'' = Inr ''contract C {}''"
    "fs_canonical example_fs ''a.sol'' = Inr ''/w/a.sol''"
    "remove_filename example_fs ''/w/a.sol'' = ''/w/''"
    by (simp_all add: example_fs_def absolute_def)
  have prs: "parseRemapping_spec ''ctxA:lib=./vendor'' =
      Some \<lparr>context = ''ctxA'', prefix = ''lib'', target = ''./vendor''\<rparr>"
    by (simp add: parseRemapping_spec_def)
  have rmf: "remove_filename example_fs ''./vendor'' = ''./''"
    by (simp add: example_fs_def)
  have r: "m_allowedDirectories (snd (readInputFilesAndConfigureRemappings example_fs parseRemapping_spec
      (state_with_input ''ctxA:lib=./vendor''))) = [''./'']"
    using t [where st = "state_with_input ''ctxA:lib=./vendor''" and tok = "''ctxA:lib=./vendor''"
        and pr = parseRemapping_spec and fs = example_fs
        and r = "\<lparr>context = ''ctxA'', prefix = ''lib'', target = ''./vendor''\<rparr>"] prs rmf
    by simp
  have p: "m_allowedDirectories (snd (readInputFilesAndConfigureRemappings example_fs rejecting_parser
      (state_with_input ''a.sol''))) = [''/w/'']"
    using t [where st = "state_with_input ''a.sol''" and tok = "''a.sol''"
        and pr = rejecting_parser and fs = example_fs
        and contents = "''contract C {}''" and cpath = "''/w/a.sol''"] fsa
    by simp
  have "m_allowedDirectories (snd (processInput example_env example_fs rejecting_parser example_engine
      (state_with_input ''a.sol''))) =
      m_allowedDirectories (snd (readInputFilesAndConfigureRemappings example_fs rejecting_parser
      (state_with_input ''a.sol'')))"
    using t [where env = example_env and fs = example_fs
        and pr = rejecting_parser and eng = example_engine and st = "state_with_input ''a.sol''"]
    by blast
  with p have a: "m_allowedDirectories (snd (processInput example_env example_fs rejecting_parser example_engine
      (state_with_input ''a.sol''))) = [''/w/'']"
    by simp
  obtain st' where o: "outputCompilationResults example_compiled loaded_state = Inr st'"
    by (simp add: outputCompilationResults_put)
  with t [where c = example_compiled and st = loaded_state and st' = st']
  have "m_allowedDirectories st' = []"
    by (simp add: loaded_state_def initial_state_def)
  with r p a o show ?thesis by blast
qed

text \<open>
  The claim as stated fails: a remapping token adds a directory although no input file was
  loaded.
\<close>

theorem allowed_directory_without_loaded_file_counterexample:
  "m_allowedDirectories (snd (readInputFilesAndConfigureRemappings example_fs parseRemapping_spec
      (state_with_input ''ctxA:lib=./vendor''))) = [''./'']
   \<and> m_sourceCodes (snd (readInputFilesAndConfigureRemappings example_fs parseRemapping_spec
      (state_with_input ''ctxA:lib=./vendor''))) = []"
  by (simp add: remapping_token_example serr_def emit_def)

subsection \<open>A remapping token and a file token\<close>

text \<open>
  C9 (as amended). The token \<open>ctxA:lib=./vendor\<close> parses into context \<open>ctxA\<close>, prefix
  \<open>lib\<close> and target \<open>./vendor\<close>. An invocation holds one positional token: when the option
  parser finds an option name twice, as it does for two positional tokens, \<open>parseArguments\<close>
  returns false and neither remappings nor sources change. If the one token parses as a
  remapping, the remapping is appended and no file is loaded; if it is a plain token of an
  existing regular file, the content is loaded into the source mapping under the token and no
  remapping is recorded.
\<close>

theorem one_token_is_remapping_or_file:
  "parseRemapping_spec ''ctxA:lib=./vendor'' =
     Some \<lparr>context = ''ctxA'', prefix = ''lib'', target = ''./vendor''\<rparr>
   \<and> (cmdLineParser_run env argv = Inr opts \<and> \<not> distinct (map fst opts) \<longrightarrow>
        fst (parseArguments env argv st) = Returned False \<and>
        m_sourceCodes (snd (parseArguments env argv st)) = m_sourceCodes st \<and>
        m_remappings (snd (parseArguments env argv st)) = m_remappings st)
   \<and> (m_args st g_argInputFile = Some tok \<and> CHR ''='' \<in> set tok \<and> pr tok = Some r \<longrightarrow>
        m_remappings (snd (readInputFilesAndConfigureRemappings fs pr st)) = m_remappings st @ [r] \<and>
        m_sourceCodes (snd (readInputFilesAndConfigureRemappings fs pr st)) = m_sourceCodes st)
   \<and> (m_args st g_argInputFile = Some tok \<and> CHR ''='' \<notin> set tok \<and>
       fs_exists fs tok = Inr True \<and> fs_is_regular_file fs tok = Inr True \<and>
       readFileAsString fs tok = Inr contents \<and> fs_canonical fs tok = Inr cpath \<longrightarrow>
        readInputFilesAndConfigureRemappings fs pr st =
          (Inr True,
           st\<lparr>m_sourceCodes := AList.update (generic_string fs tok) contents (m_sourceCodes st),
              m_allowedDirectories := m_allowedDirectories st @ [remove_filename fs cpath]\<rparr>) \<and>
        m_remappings (snd (readInputFilesAndConfigureRemappings fs pr st)) = m_remappings st)"
proof -
  have 1: "parseRemapping_spec ''ctxA:lib=./vendor'' =
     Some \<lparr>context = ''ctxA'', prefix = ''lib'', target = ''./vendor''\<rparr>"
    by (simp add: parseRemapping_spec_def)
  have 2: "cmdLineParser_run env argv = Inr opts \<and> \<not> distinct (map fst opts) \<longrightarrow>
        fst (parseArguments env argv st) = Returned False \<and>
        m_sourceCodes (snd (parseArguments env argv st)) = m_sourceCodes st \<and>
        m_remappings (snd (parseArguments env argv st)) = m_remappings st"
    using parseArguments_repeated_option [of env argv opts st] by blast
  have 3: "m_args st g_argInputFile = Some tok \<and> CHR ''='' \<in> set tok \<and> pr tok = Some r \<longrightarrow>
        m_remappings (snd (readInputFilesAndConfigureRemappings fs pr st)) = m_remappings st @ [r] \<and>
        m_sourceCodes (snd (readInputFilesAndConfigureRemappings fs pr st)) = m_sourceCodes st"
    by (simp add: readInputFiles_remapping serr_def emit_def Let_def)
  have 4: "m_args st g_argInputFile = Some tok \<and> CHR ''='' \<notin> set tok \<and>
       fs_exists fs tok = Inr True \<and> fs_is_regular_file fs tok = Inr True \<and>
       readFileAsString fs tok = Inr contents \<and> fs_canonical fs tok = Inr cpath \<longrightarrow>
        readInputFilesAndConfigureRemappings fs pr st =
          (Inr True,
           st\<lparr>m_sourceCodes := AList.update (generic_string fs tok) contents (m_sourceCodes st),
              m_allowedDirectories := m_allowedDirectories st @ [remove_filename fs cpath]\<rparr>) \<and>
        m_remappings (snd (readInputFilesAndConfigureRemappings fs pr st)) = m_remappings st"
    by (simp add: readInputFiles_plain)
  from 1 2 3 4 show ?thesis by blast
qed

theorem one_token_is_remapping_or_file_witness:
  "fst (parseArguments example_env [''solc'', ''ctxA:lib=./vendor'', ''a.sol''] initial_state) = Returned False
   \<and> m_remappings (snd (readInputFilesAndConfigureRemappings example_fs parseRemapping_spec
        (state_with_input ''ctxA:lib=./vendor''))) =
       [\<lparr>context = ''ctxA'', prefix = ''lib'', target = ''./vendor''\<rparr>]
   \<and> readInputFilesAndConfigureRemappings example_fs parseRemapping_spec (state_with_input ''a.sol'') =
       (Inr True,
        (state_with_input ''a.sol'')\<lparr>m_sourceCodes := [(''a.sol'', ''contract C {}'')],
                                     m_allowedDirectories := [''/w/'']\<rparr>)"
proof -
  note t = one_token_is_remapping_or_file
  have a: "fst (parseArguments example_env [''solc'', ''ctxA:lib=./vendor'', ''a.sol''] initial_state) = Returned False"
    using t [where env = example_env and argv = "[''solc'', ''ctxA:lib=./vendor'', ''a.sol'']"
        and opts = "[(g_argInputFile, ''ctxA:lib=./vendor''), (g_argInputFile, ''a.sol'')]"
        and st = initial_state]
    by (simp add: example_env_def)
  have b: "m_remappings (snd (readInputFilesAndConfigureRemappings example_fs parseRemapping_spec
        (state_with_input ''ctxA:lib=./vendor''))) =
       [\<lparr>context = ''ctxA'', prefix = ''lib'', target = ''./vendor''\<rparr>]"
    using t [where st = "state_with_input ''ctxA:lib=./vendor''" and tok = "''ctxA:lib=./vendor''"
        and pr = parseRemapping_spec and fs = example_fs
        and r = "\<lparr>context = ''ctxA'', prefix = ''lib'', target = ''./vendor''\<rparr>"]
    by simp
  have c: "readInputFilesAndConfigureRemappings example_fs parseRemapping_spec (state_with_input ''a.sol'') =
       (Inr True,
        (state_with_input ''a.sol'')\<lparr>m_sourceCodes := [(''a.sol'', ''contract C {}'')],
                                     m_allowedDirectories := [''/w/'']\<rparr>)"
    using t [where st = "state_with_input ''a.sol''" and tok = "''a.sol''"
        and pr = parseRemapping_spec and fs = example_fs
        and contents = "''contract C {}''" and cpath = "''/w/a.sol''"]
    by (simp add: example_fs_def absolute_def)
  from a b c show ?thesis by blast
qed

text \<open>
  The claim as stated fails: given the remapping token and the file token together, argument
  parsing fails and nothing is loaded; and whichever of the two tokens the options hold
  alone, either no file is loaded or no remapping is recorded.
\<close>

theorem remapping_and_file_together_counterexample:
  "fst (parseArguments example_env [''solc'', ''ctxA:lib=./vendor'', ''a.sol''] initial_state) = Returned False
   \<and> m_remappings (snd (parseArguments example_env [''solc'', ''ctxA:lib=./vendor'', ''a.sol''] initial_state)) = []
   \<and> m_sourceCodes (snd (parseArguments example_env [''solc'', ''ctxA:lib=./vendor'', ''a.sol''] initial_state)) = []
   \<and> m_sourceCodes (snd (readInputFilesAndConfigureRemappings example_fs parseRemapping_spec
        (state_with_input ''ctxA:lib=./vendor''))) = []
   \<and> m_remappings (snd (readInputFilesAndConfigureRemappings example_fs parseRemapping_spec
        (state_with_input ''a.sol''))) = []"
proof -
  have "cmdLineParser_run example_env [''solc'', ''ctxA:lib=./vendor'', ''a.sol''] =
          Inr [(g_argInputFile, ''ctxA:lib=./vendor''), (g_argInputFile, ''a.sol'')]"
    by (simp add: example_env_def)
  from parseArguments_repeated_option [OF this, of initial_state]
  have a: "fst (parseArguments example_env [''solc'', ''ctxA:lib=./vendor'', ''a.sol''] initial_state) = Returned False
   \<and> m_remappings (snd (parseArguments example_env [''solc'', ''ctxA:lib=./vendor'', ''a.sol''] initial_state)) = []
   \<and> m_sourceCodes (snd (parseArguments example_env [''solc'', ''ctxA:lib=./vendor'', ''a.sol''] initial_state)) = []"
    by (simp add: initial_state_def)
  have b: "m_sourceCodes (snd (readInputFilesAndConfigureRemappings example_fs parseRemapping_spec
        (state_with_input ''ctxA:lib=./vendor''))) = []"
    by (simp add: remapping_token_example serr_def emit_def)
  have c: "m_remappings (snd (readInputFilesAndConfigureRemappings example_fs parseRemapping_spec
        (state_with_input ''a.sol''))) = []"
    using loaded_example by (simp add: state_with_input_def loaded_state_def initial_state_def)
  from a b c show ?thesis by blast
qed

subsection \<open>A remapping token alone\<close>

text \<open>
  C10. If the one positional token contains \<open>=\<close> and parses as a remapping, and the source
  mapping was empty, then \<open>processInput\<close> returns false, and the only entry it adds to the
  trace is the \<open>No input files given.\<close> line; the source mapping is still empty, no call
  was made on the engine (it was not even constructed), and the outcome does not depend on
  what the disk holds: the text after \<open>=\<close> is not read as a file.
\<close>

theorem remapping_only_gives_no_input_files:
  "m_args st g_argInputFile = Some tok \<Longrightarrow> CHR ''='' \<in> set tok \<Longrightarrow> pr tok = Some r \<Longrightarrow>
   m_sourceCodes st = [] \<Longrightarrow>
   processInput env fs pr eng st =
     (Inr False,
      serr True no_input_files
        (st\<lparr>m_remappings := m_remappings st @ [r],
            m_allowedDirectories := m_allowedDirectories st @
              [remove_filename fs (tl (dropWhile (\<lambda>c. c \<noteq> CHR ''='') tok))]\<rparr>))
   \<and> no_input_files =
       ''No input files given. If you wish to use the standard input please specify '' @
       dquote @ ''-'' @ dquote @ '' explicitly.'' @ endl
   \<and> m_sourceCodes (snd (processInput env fs pr eng st)) = []
   \<and> written st (snd (processInput env fs pr eng st)) = [Out Cerr no_input_files]
   \<and> filter is_engine (trace (snd (processInput env fs pr eng st))) = filter is_engine (trace st)
   \<and> (remove_filename fs' = remove_filename fs \<longrightarrow>
        processInput env fs' pr eng st = processInput env fs pr eng st)"
  by (simp add: processInput_def readInputFiles_remapping no_input_files_def serr_def emit_def
        written_def)

theorem remapping_only_gives_no_input_files_witness:
  "processInput example_env example_fs parseRemapping_spec example_engine
     (state_with_input ''ctxA:lib=./vendor'') =
   (Inr False,
    (state_with_input ''ctxA:lib=./vendor'')
       \<lparr>g_hasOutput := True,
        trace := [Out Cerr no_input_files],
        m_remappings := [\<lparr>context = ''ctxA'', prefix = ''lib'', target = ''./vendor''\<rparr>],
        m_allowedDirectories := [''./'']\<rparr>)"
  using remapping_only_gives_no_input_files [where st = "state_with_input ''ctxA:lib=./vendor''"
      and tok = "''ctxA:lib=./vendor''" and pr = parseRemapping_spec and env = example_env
      and fs = example_fs and eng = example_engine
      and r = "\<lparr>context = ''ctxA'', prefix = ''lib'', target = ''./vendor''\<rparr>"]
  by (simp add: parseRemapping_spec_def example_fs_def serr_def emit_def state_with_input_def
        initial_state_def)

end
